theory Spec2Isabelle
  imports Complex_Main
begin

section \<open>The Python wrapper of IRBEM: values, errors and model inputs\<close>

text \<open>
  The development embeds the derived computation layer of \<^verbatim>\<open>src/python/IRBEM.py\<close>:
  \<^verbatim>\<open>_prepMagInput\<close>, \<^verbatim>\<open>_interpolate_field_line\<close>, \<^verbatim>\<open>bounce_period\<close>,
  \<^verbatim>\<open>mirror_point_altitude\<close> and the kinematic helpers \<^verbatim>\<open>beta\<close> and \<^verbatim>\<open>vparalel\<close>.

  Conventions of the embedding.
  \<^item> Python floats, \<^verbatim>\<open>numpy.float64\<close> and \<^verbatim>\<open>c_double\<close> are real numbers: rounding,
    infinities and NaN are outside the model; an int too large for a double raises. Where numpy would produce
    \<^verbatim>\<open>inf\<close> or \<^verbatim>\<open>nan\<close> (a division of an array by zero, the root of a negative number),
    the model has HOL's total \<open>/\<close> and \<open>sqrt\<close>.
  \<^item> Python 3 is assumed: \<^verbatim>\<open>len(S)/2\<close> is true division.
  \<^item> An exception is a value \<open>Inl e\<close> of a sum type; \<^verbatim>\<open>print\<close> appends to a log.
  \<^item> The compiled IRBEM library, \<^verbatim>\<open>scipy.interpolate.interp1d\<close> and
    \<^verbatim>\<open>scipy.optimize.brentq\<close> are not part of the repository: they are fields of
    a record of external functions, and a theorem that needs a property of one of
    them states it as a hypothesis.
\<close>

datatype py_error =
    ValueError "string list"
  | TypeError string
  | IndexError string
  | UnboundLocalError string
  | ZeroDivisionError string
  | OverflowError string
  | RuntimeError string

text \<open>The Python values a model-input dictionary can hold.\<close>

datatype pyval =
    PyInt int
  | PyFloat real
  | NpFloat64 real
  | PyList "pyval list"
  | NpArray "real list"
  | PyStr string
  | PyBool bool
  | PyTuple "pyval list"
  | PyNone

datatype pytype =
  T_int | T_float | T_np_float64 | T_list | T_ndarray | T_str | T_bool | T_tuple | T_NoneType

fun type_of :: "pyval \<Rightarrow> pytype" where
  "type_of (PyInt n) = T_int"
| "type_of (PyFloat x) = T_float"
| "type_of (NpFloat64 x) = T_np_float64"
| "type_of (PyList vs) = T_list"
| "type_of (NpArray xs) = T_ndarray"
| "type_of (PyStr s) = T_str"
| "type_of (PyBool b) = T_bool"
| "type_of (PyTuple vs) = T_tuple"
| "type_of PyNone = T_NoneType"

text \<open>
  A dictionary is an association list in insertion order, since
  \<^verbatim>\<open>list(inputDict.keys())[0]\<close> reads the first key; \<open>map_of\<close> is the lookup.
\<close>

type_synonym pydict = "(string \<times> pyval) list"

definition bind_err :: "py_error + 'a \<Rightarrow> ('a \<Rightarrow> py_error + 'b) \<Rightarrow> py_error + 'b" where
  "bind_err m f = (case m of Inl e \<Rightarrow> Inl e | Inr x \<Rightarrow> f x)"

text \<open>A loop body run over a list, left to right, stopping at the first exception.\<close>

fun mapM_err :: "('a \<Rightarrow> py_error + 'b) \<Rightarrow> 'a list \<Rightarrow> py_error + 'b list" where
  "mapM_err f [] = Inr []"
| "mapM_err f (x # xs) =
     (case f x of
        Inl e \<Rightarrow> Inl e
      | Inr y \<Rightarrow> (case mapM_err f xs of Inl e \<Rightarrow> Inl e | Inr ys \<Rightarrow> Inr (y # ys)))"

text \<open>\<^verbatim>\<open>v[dt]\<close> for a non-negative index.\<close>

fun py_getitem :: "pyval \<Rightarrow> nat \<Rightarrow> py_error + pyval" where
  "py_getitem (PyList vs) i =
     (if i < length vs then Inr (vs ! i) else Inl (IndexError ''list index out of range''))"
| "py_getitem (NpArray xs) i =
     (if i < length xs then Inr (NpFloat64 (xs ! i))
      else Inl (IndexError ''index is out of bounds for axis 0''))"
| "py_getitem (PyStr s) i =
     (if i < length s then Inr (PyStr [s ! i]) else Inl (IndexError ''string index out of range''))"
| "py_getitem (PyInt n) i = Inl (TypeError ''int object is not subscriptable'')"
| "py_getitem (PyFloat x) i = Inl (TypeError ''float object is not subscriptable'')"
| "py_getitem (NpFloat64 x) i = Inl (IndexError ''invalid index to scalar variable.'')"
| "py_getitem (PyBool b) i = Inl (TypeError ''bool object is not subscriptable'')"
| "py_getitem (PyTuple vs) i =
     (if i < length vs then Inr (vs ! i) else Inl (IndexError ''tuple index out of range''))"
| "py_getitem PyNone i = Inl (TypeError ''NoneType object is not subscriptable'')"

text \<open>
  The least magnitude of a Python int that has no double: an int is rounded to 53
  bits, and from \<open>2 ^ 1024 - 2 ^ 970\<close> on the rounded value has the exponent of
  \<open>2 ^ 1024\<close>.
\<close>

definition c_double_limit :: int where
  "c_double_limit = 2 ^ 1024 - 2 ^ 970"

text \<open>
  Storing a Python value into a slot of a \<^verbatim>\<open>ctypes.c_double\<close> array: the value is
  converted with \<^verbatim>\<open>__float__\<close>; a value without one is a \<^verbatim>\<open>TypeError\<close>, and
  an int too large for a double is an \<^verbatim>\<open>OverflowError\<close>.
\<close>

fun c_double_set :: "pyval \<Rightarrow> py_error + real" where
  "c_double_set (PyInt n) =
     (if \<bar>n\<bar> < c_double_limit then Inr (of_int n)
      else Inl (OverflowError ''int too large to convert to float''))"
| "c_double_set (PyFloat x) = Inr x"
| "c_double_set (NpFloat64 x) = Inr x"
| "c_double_set (PyList vs) = Inl (TypeError ''must be real number, not list'')"
| "c_double_set (NpArray xs) =
     (if length xs = 1 then Inr (xs ! 0)
      else Inl (TypeError ''only size-1 arrays can be converted to Python scalars''))"
| "c_double_set (PyStr s) = Inl (TypeError ''must be real number, not str'')"
| "c_double_set (PyBool b) = Inr (if b then 1 else 0)"
| "c_double_set (PyTuple vs) = Inl (TypeError ''must be real number, not tuple'')"
| "c_double_set PyNone = Inl (TypeError ''must be real number, not NoneType'')"

subsection \<open>\<^verbatim>\<open>_prepMagInput\<close>\<close>

definition orderedKeys :: "string list" where
  "orderedKeys = [''Kp'', ''Dst'', ''dens'', ''velo'', ''Pdyn'', ''ByIMF'', ''BzIMF'',
     ''G1'', ''G2'', ''G3'', ''W1'', ''W2'', ''W3'', ''W4'', ''W5'', ''W6'', ''AL'']"

text \<open>
  \<^verbatim>\<open>self.maginput\<close>: a \<^verbatim>\<open>c_double * 25\<close> vector, or a
  \<^verbatim>\<open>(c_double * nTimePy) * 25\<close> matrix given by its 25 rows. A fresh ctypes array
  is filled with zeros.
\<close>

datatype maginput = Vec "real list" | Mat "real list list"

definition unrecognizable :: string where
  "unrecognizable = ''Model inputs are in an unrecognizable format. Try a dictionary of numpy arrays, lists, ints or floats''"

text \<open>The inner loop over \<^verbatim>\<open>dt\<close> for one key of \<^verbatim>\<open>orderedKeys\<close> (lines 595 to 601).\<close>

definition fill_row :: "pydict \<Rightarrow> nat \<Rightarrow> string \<Rightarrow> py_error + real list" where
  "fill_row inputDict nTimePy key =
     mapM_err (\<lambda>dt.
       (case map_of inputDict key of
          Some v \<Rightarrow> bind_err (py_getitem v dt) c_double_set
        | None \<Rightarrow> Inr (- 9999))) [0..<nTimePy]"

text \<open>The body of the loop of the scalar branch (lines 612 to 615).\<close>

definition fill_slot :: "pydict \<Rightarrow> string \<Rightarrow> py_error + real" where
  "fill_slot inputDict key =
     (case map_of inputDict key of
        Some v \<Rightarrow> c_double_set v
      | None \<Rightarrow> Inr (- 9999))"

definition prepMagInput :: "pydict option \<Rightarrow> py_error + maginput" where
  "prepMagInput inputDict_opt =
     (case inputDict_opt of
        None \<Rightarrow> Inr (Vec (replicate 25 (- 9999)))
      | Some inputDict \<Rightarrow>
          (case inputDict of
             [] \<Rightarrow> Inl (IndexError ''list index out of range'')
           | (key0, val0) # _ \<Rightarrow>
               (let magType = type_of val0 in
                if magType \<in> set [T_ndarray, T_list] then
                  (let nTimePy = length key0 in
                   bind_err (mapM_err (fill_row inputDict nTimePy) orderedKeys)
                     (\<lambda>rows. Inr (Mat (rows @ replicate 8 (replicate nTimePy 0)))))
                else if magType \<in> set [T_int, T_float, T_np_float64] then
                  bind_err (mapM_err (fill_slot inputDict) orderedKeys)
                    (\<lambda>slots. Inr (Vec (slots @ replicate 8 0)))
                else Inl (TypeError unrecognizable))))"

section \<open>Printing and exceptions\<close>

text \<open>
  A call returns the lines it printed, in order, and either the exception it
  raised or its value.
\<close>

type_synonym 'a io = "string list \<times> (py_error + 'a)"

definition return_io :: "'a \<Rightarrow> 'a io" where
  "return_io x = ([], Inr x)"

definition raise_io :: "py_error \<Rightarrow> 'a io" where
  "raise_io e = ([], Inl e)"

definition print_io :: "string \<Rightarrow> unit io" where
  "print_io s = ([s], Inr ())"

definition lift_io :: "py_error + 'a \<Rightarrow> 'a io" where
  "lift_io r = ([], r)"

definition bind_io :: "'a io \<Rightarrow> ('a \<Rightarrow> 'b io) \<Rightarrow> 'b io" where
  "bind_io m f =
     (case snd m of
        Inl e \<Rightarrow> (fst m, Inl e)
      | Inr x \<Rightarrow> (fst m @ fst (f x), snd (f x)))"

definition when_io :: "bool \<Rightarrow> unit io \<Rightarrow> unit io" where
  "when_io b m = (if b then m else return_io ())"

text \<open>Reading a local variable that an earlier statement may have left unbound.\<close>

definition local_var :: "string \<Rightarrow> 'a option \<Rightarrow> py_error + 'a" where
  "local_var name v = (case v of None \<Rightarrow> Inl (UnboundLocalError name) | Some x \<Rightarrow> Inr x)"

section \<open>The numpy operations the wrapper calls\<close>

text \<open>\<^verbatim>\<open>xs[:n]\<close>: a negative \<open>n\<close> counts from the end, and the bounds are clipped.\<close>

definition py_slice_to :: "'a list \<Rightarrow> int \<Rightarrow> 'a list" where
  "py_slice_to xs n =
     (if n < 0 then take (nat (int (length xs) + n)) xs else take (nat n) xs)"

text \<open>\<^verbatim>\<open>xs[1:-1]\<close>.\<close>

definition py_slice_inner :: "'a list \<Rightarrow> 'a list" where
  "py_slice_inner xs = butlast (tl xs)"

text \<open>\<^verbatim>\<open>np.linspace(start, stop, num)\<close> with the end point included.\<close>

definition np_linspace :: "real \<Rightarrow> real \<Rightarrow> int \<Rightarrow> py_error + real list" where
  "np_linspace start stop num =
     (if num < 0 then Inl (ValueError [''Number of samples must be non-negative.''])
      else if num = 1 then Inr [start]
      else Inr (map (\<lambda>i. start + real i * ((stop - start) / real_of_int (num - 1)))
                 [0..<nat num]))"

text \<open>
  \<^verbatim>\<open>np.convolve(a, v, mode = 'same')\<close>. The full discrete convolution has
  \<open>length a + length v - 1\<close> entries, entry \<open>n\<close> being the sum of \<open>a[m] * v[n - m]\<close>.
  numpy swaps the arguments when \<open>v\<close> is the longer one, refuses an empty argument,
  and for mode \<^verbatim>\<open>same\<close> keeps \<open>length a\<close> entries, of which \<open>length v div 2\<close> are
  left boundary entries.
\<close>

definition np_convolve_full :: "real list \<Rightarrow> real list \<Rightarrow> real list" where
  "np_convolve_full a v =
     map (\<lambda>n. \<Sum>m\<leftarrow>[0..<length a].
                 (if m \<le> n \<and> n - m < length v then a ! m * v ! (n - m) else 0))
       [0..<length a + length v - 1]"

definition np_convolve_same :: "real list \<Rightarrow> real list \<Rightarrow> py_error + real list" where
  "np_convolve_same a0 v0 =
     (let a = (if length v0 > length a0 then v0 else a0);
          v = (if length v0 > length a0 then a0 else v0)
      in if length a = 0 then Inl (ValueError [''a cannot be empty''])
         else if length v = 0 then Inl (ValueError [''v cannot be empty''])
         else Inr (take (length a)
                    (drop (length v - 1 - length v div 2) (np_convolve_full a v))))"

text \<open>\<^verbatim>\<open>np.divide\<close> of two one-dimensional arrays, with numpy's broadcasting.\<close>

definition np_divide :: "real list \<Rightarrow> real list \<Rightarrow> py_error + real list" where
  "np_divide xs ys =
     (if length xs = length ys then Inr (map (\<lambda>(x, y). x / y) (zip xs ys))
      else if length ys = 1 then Inr (map (\<lambda>x. x / ys ! 0) xs)
      else if length xs = 1 then Inr (map (\<lambda>y. xs ! 0 / y) ys)
      else Inl (ValueError [''operands could not be broadcast together'']))"

section \<open>Relativistic kinematics\<close>

definition Re_km :: real where
  "Re_km = 6371"

definition c_light :: real where
  "c_light = 3.0 * 10 ^ 8"

text \<open>
  \<^verbatim>\<open>beta = lambda Ek, Erest = 511: np.sqrt(1-((Ek/Erest)+1)**(-2))\<close> on Python
  numbers: a zero divisor and a zero base of the negative power raise.
\<close>

definition beta :: "real \<Rightarrow> real \<Rightarrow> py_error + real" where
  "beta Ek Erest =
     (if Erest = 0 then Inl (ZeroDivisionError ''division by zero'')
      else if Ek / Erest + 1 = 0
      then Inl (ZeroDivisionError ''0.0 cannot be raised to a negative power'')
      else Inr (sqrt (1 - 1 / (Ek / Erest + 1) ^ 2)))"

text \<open>
  \<^verbatim>\<open>vparalel = lambda Ek, Bm, B, Erest = 511: c*beta(Ek, Erest)*np.sqrt(1 - np.abs(B/Bm))\<close>
  with \<open>B\<close> an array.
\<close>

definition vparalel :: "real \<Rightarrow> real \<Rightarrow> real list \<Rightarrow> real \<Rightarrow> py_error + real list" where
  "vparalel Ek Bm B Erest =
     bind_err (beta Ek Erest)
       (\<lambda>b. Inr (map (\<lambda>Bi. c_light * b * sqrt (1 - \<bar>Bi / Bm\<bar>)) B))"

section \<open>The external functions\<close>

text \<open>
  What \<^verbatim>\<open>trace_field_line2_1_\<close> leaves in the buffers the wrapper allocates
  (3000 position triples, 3000 field magnitudes) and in \<^verbatim>\<open>Nposit\<close>.
\<close>

record raw_trace =
  posit :: "(real \<times> real \<times> real) list"
  blocal_buf :: "real list"
  Nposit_c :: int

text \<open>
  \<^item> \<open>make_lstar1\<close>: the field magnitude \<^verbatim>\<open>blocal[0]\<close> that \<^verbatim>\<open>make_lstar1_\<close>
    computes at the single input point, from the prepared model inputs;
  \<^item> \<open>trace_field_line2_1\<close>: the trace, from the prepared model inputs and the
    stop radius \<^verbatim>\<open>R0\<close>;
  \<^item> \<open>interp1d_cubic x y\<close>: \<^verbatim>\<open>scipy.interpolate.interp1d(x, y, kind = 'cubic')\<close>,
    an exception or the interpolating function;
  \<^item> \<open>brentq f a b\<close>: \<^verbatim>\<open>scipy.optimize.brentq(f, a, b)\<close>, an exception or a point.

  The position and time \<^verbatim>\<open>X\<close> of a call is a single well-formed point; its
  conversion by \<^verbatim>\<open>_prepTimeLoc\<close> is not modelled, and the two routines of the
  IRBEM library stand for the library at that point.
\<close>

record externals =
  make_lstar1 :: "maginput \<Rightarrow> real"
  trace_field_line2_1 :: "maginput \<Rightarrow> real \<Rightarrow> raw_trace"
  interp1d_cubic :: "real list \<Rightarrow> real list \<Rightarrow> py_error + (real \<Rightarrow> real)"
  brentq :: "(real \<Rightarrow> real) \<Rightarrow> real \<Rightarrow> real \<Rightarrow> py_error + real"

section \<open>Tracing and interpolating a field line\<close>

text \<open>\<^verbatim>\<open>make_lstar\<close> for a single point; of its output only \<^verbatim>\<open>blocal[0]\<close> is kept.\<close>

definition make_lstar :: "externals \<Rightarrow> pydict option \<Rightarrow> bool \<Rightarrow> real io" where
  "make_lstar ext maginput STATUS_FLAG =
     bind_io (lift_io (prepMagInput maginput)) (\<lambda>m.
     bind_io (when_io STATUS_FLAG (print_io ''Running IRBEM-LIB make_lstar'')) (\<lambda>_.
     return_io (make_lstar1 ext m)))"

text \<open>The entries \<^verbatim>\<open>POSIT\<close>, \<^verbatim>\<open>Nposit\<close> and \<^verbatim>\<open>blocal\<close> of the dictionary that
  \<^verbatim>\<open>trace_field_line\<close> returns.\<close>

record trace_output =
  POSIT :: "(real \<times> real \<times> real) list"
  Nposit :: int
  blocal :: "real list"

definition trace_field_line ::
  "externals \<Rightarrow> pydict option \<Rightarrow> real \<Rightarrow> bool \<Rightarrow> trace_output io" where
  "trace_field_line ext maginput R0 STATUS_FLAG =
     bind_io (lift_io (prepMagInput maginput)) (\<lambda>m.
     bind_io (when_io STATUS_FLAG (print_io
        ''Running IRBEM-LIB trace_field_line. Python may temporarily stop responding'')) (\<lambda>_.
     (let raw = trace_field_line2_1 ext m R0 in
      return_io \<lparr>POSIT = py_slice_to (posit raw) (Nposit_c raw),
                 Nposit = Nposit_c raw,
                 blocal = py_slice_to (blocal_buf raw) (Nposit_c raw)\<rparr>)))"

text \<open>The dictionary that \<^verbatim>\<open>_interpolate_field_line\<close> returns.\<close>

record fLine =
  fl_S :: "real list"
  fl_fB :: "real \<Rightarrow> real"
  fl_fx :: "real \<Rightarrow> real"
  fl_fy :: "real \<Rightarrow> real"
  fl_fz :: "real \<Rightarrow> real"
  fl_inputB :: real

text \<open>
  \<^verbatim>\<open>_interpolate_field_line\<close>. The parameter \<open>R0\<close> is not passed on:
  \<^verbatim>\<open>trace_field_line\<close> is called with its default \<^verbatim>\<open>R0 = 1\<close>. An empty
  \<^verbatim>\<open>POSIT\<close> is a one-dimensional numpy array, which the two-index slice
  \<^verbatim>\<open>[:Nposit, 0]\<close> refuses.
\<close>

definition interpolate_field_line ::
  "externals \<Rightarrow> pydict option \<Rightarrow> real \<Rightarrow> bool \<Rightarrow> fLine io" where
  "interpolate_field_line ext maginput R0 STATUS_FLAG =
     bind_io (make_lstar ext maginput STATUS_FLAG) (\<lambda>inputblocal.
     bind_io (trace_field_line ext maginput 1 STATUS_FLAG) (\<lambda>out.
       if Nposit out = - 9999 then raise_io (ValueError [''This is an open field line!''])
       else if POSIT out = [] then raise_io (IndexError ''too many indices for array'')
       else
         (let xGEO = map (\<lambda>(x, y, z). x) (py_slice_to (POSIT out) (Nposit out));
              yGEO = map (\<lambda>(x, y, z). y) (py_slice_to (POSIT out) (Nposit out));
              zGEO = map (\<lambda>(x, y, z). z) (py_slice_to (POSIT out) (Nposit out));
              S = map real [0..<length (py_slice_to (blocal out) (Nposit out))]
          in
            bind_io (lift_io (interp1d_cubic ext S
                (map (\<lambda>b. b - inputblocal) (py_slice_to (blocal out) (Nposit out))))) (\<lambda>fB.
            bind_io (lift_io (interp1d_cubic ext S xGEO)) (\<lambda>fx.
            bind_io (lift_io (interp1d_cubic ext S yGEO)) (\<lambda>fy.
            bind_io (lift_io (interp1d_cubic ext S zGEO)) (\<lambda>fz.
            return_io \<lparr>fl_S = S, fl_fB = fB, fl_fx = fx, fl_fy = fy, fl_fz = fz,
                       fl_inputB = inputblocal\<rparr>)))))))"

text \<open>
  Calling an interpolating function of the field line on an array: an argument
  outside the range \<open>[S[0], S[-1]] = [0, len(S) - 1]\<close> is a \<^verbatim>\<open>ValueError\<close>.
\<close>

definition interp_call :: "fLine \<Rightarrow> (real \<Rightarrow> real) \<Rightarrow> real list \<Rightarrow> py_error + real list" where
  "interp_call fLine f x_new =
     (if list_ex (\<lambda>x. x < 0) x_new
      then Inl (ValueError [''A value in x_new is below the interpolation range.''])
      else if list_ex (\<lambda>x. real (length (fl_S fLine)) - 1 < x) x_new
      then Inl (ValueError [''A value in x_new is above the interpolation range.''])
      else Inr (map f x_new))"

text \<open>The same call on a single number.\<close>

definition interp_call1 :: "fLine \<Rightarrow> (real \<Rightarrow> real) \<Rightarrow> real \<Rightarrow> py_error + real" where
  "interp_call1 fLine f x = bind_err (interp_call fLine f [x]) (\<lambda>ys. Inr (ys ! 0))"

section \<open>The mirror bracket\<close>

definition sign_msg :: string where
  "sign_msg = ''f(a) and f(b) must have different signs''"

definition below_ground_long :: py_error where
  "below_ground_long = ValueError
     [''Mirror point below the ground!, Change R0 or catch this error and assign it a value.'',
      CHR 0x0A # '' Original error: '', sign_msg]"

definition below_ground_short :: py_error where
  "below_ground_short = ValueError [''Mirror point below the ground!'']"

text \<open>
  The handler of the \<^verbatim>\<open>try\<close> statement: a \<^verbatim>\<open>ValueError\<close> whose text is
  \<open>sign_msg\<close> is replaced by \<open>err\<close>; after any other \<^verbatim>\<open>ValueError\<close> the handler
  ends without raising; an exception of another class is not caught.
\<close>

definition bracket_handler :: "py_error \<Rightarrow> py_error \<Rightarrow> py_error option" where
  "bracket_handler err e =
     (case e of
        ValueError args \<Rightarrow> (if args = [sign_msg] then Some err else None)
      | _ \<Rightarrow> Some e)"

text \<open>
  The \<^verbatim>\<open>try\<close> statement of \<^verbatim>\<open>bounce_period\<close> (lines 472 to 481) and of
  \<^verbatim>\<open>mirror_point_altitude\<close> (lines 534 to 546), which differ in the exception
  \<open>err\<close> they raise. The result is the exception that leaves the statement, or the
  local variables \<^verbatim>\<open>startInd\<close> and \<^verbatim>\<open>endInd\<close>, \<open>None\<close> when unbound.
  The root finder is given the interpolating function itself: it evaluates it
  inside its bracket only, which lies in the interpolation range.
\<close>

definition bracket_try ::
  "externals \<Rightarrow> fLine \<Rightarrow> py_error \<Rightarrow> py_error + (real option \<times> real option)" where
  "bracket_try ext fLine err =
     (case brentq ext (fl_fB fLine) 0 (real (length (fl_S fLine)) / 2) of
        Inl e \<Rightarrow>
          (case bracket_handler err e of Some e' \<Rightarrow> Inl e' | None \<Rightarrow> Inr (None, None))
      | Inr startInd \<Rightarrow>
          (case brentq ext (fl_fB fLine) (real (length (fl_S fLine)) / 2)
                  (real (length (fl_S fLine)) - 1) of
             Inl e \<Rightarrow>
               (case bracket_handler err e of
                  Some e' \<Rightarrow> Inl e'
                | None \<Rightarrow> Inr (Some startInd, None))
           | Inr endInd \<Rightarrow> Inr (Some startInd, Some endInd)))"

section \<open>Bounce period and mirror point altitude\<close>

datatype energy = EScalar real | ESeq "real list"

datatype bounce_result = TbScalar real | TbSeq "real list"

definition density_warning :: string where
  "density_warning = ''Warning: interpolating with less data than IRBEM outputs, the bounce period may be inaccurate!''"

text \<open>\<^verbatim>\<open>2*np.sum(np.divide(ds[1:-1], vparalel(E, inputB, dB, Erest = Erest)[1:-1]))\<close>.\<close>

definition bounce_sum ::
  "real list \<Rightarrow> real \<Rightarrow> real list \<Rightarrow> real \<Rightarrow> real \<Rightarrow> py_error + real" where
  "bounce_sum ds Bm dB Erest Ek =
     bind_err (vparalel Ek Bm dB Erest) (\<lambda>v.
     bind_err (np_divide (py_slice_inner ds) (py_slice_inner v)) (\<lambda>q.
     Inr (2 * sum_list q)))"

text \<open>Lines 487 to 503 of \<^verbatim>\<open>bounce_period\<close>.\<close>

definition resample_and_integrate ::
  "fLine \<Rightarrow> real option \<Rightarrow> real option \<Rightarrow> int \<Rightarrow> energy \<Rightarrow> real
     \<Rightarrow> py_error + bounce_result" where
  "resample_and_integrate fLine startInd endInd interpNum E Erest =
     bind_err (local_var ''startInd'' startInd) (\<lambda>s0.
     bind_err (local_var ''endInd'' endInd) (\<lambda>s1.
     bind_err (np_linspace s0 s1 interpNum) (\<lambda>sInterp.
     bind_err (interp_call fLine (fl_fx fLine) sInterp) (\<lambda>xs.
     bind_err (np_convolve_same xs [- 1, 1]) (\<lambda>dx.
     bind_err (interp_call fLine (fl_fy fLine) sInterp) (\<lambda>ys.
     bind_err (np_convolve_same ys [- 1, 1]) (\<lambda>dy.
     bind_err (interp_call fLine (fl_fz fLine) sInterp) (\<lambda>zs.
     bind_err (np_convolve_same zs [- 1, 1]) (\<lambda>dz.
     (let ds = map (\<lambda>(a, b, c). 6.371 * 10 ^ 6 * sqrt (a ^ 2 + b ^ 2 + c ^ 2))
                 (zip dx (zip dy dz))
      in
     bind_err (interp_call fLine (fl_fB fLine) sInterp) (\<lambda>bs.
     (let dB = map (\<lambda>b. b + fl_inputB fLine) bs in
      case E of
        ESeq Es \<Rightarrow>
          bind_err (mapM_err (bounce_sum ds (fl_inputB fLine) dB Erest) Es)
            (\<lambda>Tb. Inr (TbSeq Tb))
      | EScalar Ek \<Rightarrow>
          bind_err (bounce_sum ds (fl_inputB fLine) dB Erest Ek)
            (\<lambda>Tb. Inr (TbScalar Tb))))))))))))))"

text \<open>
  \<^verbatim>\<open>bounce_period(X, maginput, E, Erest, R0, STATUS_FLAG, interpNum)\<close>, the keyword
  arguments given explicitly (their defaults are 511, 1, False and 100000).
\<close>

definition bounce_period ::
  "externals \<Rightarrow> pydict option \<Rightarrow> energy \<Rightarrow> real \<Rightarrow> real \<Rightarrow> bool \<Rightarrow> int
     \<Rightarrow> bounce_result io" where
  "bounce_period ext maginput E Erest R0 STATUS_FLAG interpNum =
     bind_io (when_io STATUS_FLAG (print_io ''IRBEM: Calculating bounce periods'')) (\<lambda>_.
     bind_io (interpolate_field_line ext maginput R0 STATUS_FLAG) (\<lambda>fLine.
     bind_io (lift_io (bracket_try ext fLine below_ground_long)) (\<lambda>inds.
     bind_io (when_io (interpNum < int (length (fl_S fLine))) (print_io density_warning)) (\<lambda>_.
     lift_io (resample_and_integrate fLine (fst inds) (snd inds) interpNum E Erest)))))"

text \<open>The radial distance at arc parameter \<open>s\<close>, in Earth radii, as lines 552 to 556
  compute it.\<close>

definition radial_distance :: "fLine \<Rightarrow> real \<Rightarrow> py_error + real" where
  "radial_distance fLine s =
     bind_err (interp_call1 fLine (fl_fx fLine) s) (\<lambda>x.
     bind_err (interp_call1 fLine (fl_fy fLine) s) (\<lambda>y.
     bind_err (interp_call1 fLine (fl_fz fLine) s) (\<lambda>z.
     Inr (sqrt (x ^ 2 + y ^ 2 + z ^ 2)))))"

text \<open>\<^verbatim>\<open>mirror_point_altitude(X, maginput, R0, STATUS_FLAG)\<close>.\<close>

definition mirror_point_altitude ::
  "externals \<Rightarrow> pydict option \<Rightarrow> real \<Rightarrow> bool \<Rightarrow> real io" where
  "mirror_point_altitude ext maginput R0 STATUS_FLAG =
     bind_io (when_io STATUS_FLAG (print_io ''IRBEM: Calculating mirror point altitude'')) (\<lambda>_.
     bind_io (interpolate_field_line ext maginput R0 STATUS_FLAG) (\<lambda>fLine.
     bind_io (lift_io (bracket_try ext fLine
        (if STATUS_FLAG then below_ground_long else below_ground_short))) (\<lambda>inds.
     lift_io (
       bind_err (local_var ''startInd'' (fst inds)) (\<lambda>startInd.
       bind_err (interp_call1 fLine (fl_fz fLine) startInd) (\<lambda>z0.
       if 0 < z0 then
         bind_err (local_var ''endInd'' (snd inds)) (\<lambda>endInd.
         bind_err (radial_distance fLine endInd) (\<lambda>r. Inr (Re_km * (r - 1))))
       else
         bind_err (radial_distance fLine startInd) (\<lambda>r. Inr (Re_km * (r - 1)))))))))"

section \<open>Notions used to state the properties\<close>

subsection \<open>Model inputs\<close>

definition is_scalar :: "pyval \<Rightarrow> bool" where
  "is_scalar v = (type_of v \<in> set [T_int, T_float, T_np_float64])"

definition is_sequence :: "pyval \<Rightarrow> bool" where
  "is_sequence v = (type_of v \<in> set [T_ndarray, T_list])"

definition uniformly_scalar :: "pydict \<Rightarrow> bool" where
  "uniformly_scalar inputDict = list_all (\<lambda>kv. is_scalar (snd kv)) inputDict"

text \<open>A value that a \<^verbatim>\<open>c_double\<close> can hold: every value but an int beyond the
  range of a double.\<close>

fun fits_c_double :: "pyval \<Rightarrow> bool" where
  "fits_c_double (PyInt n) = (\<bar>n\<bar> < c_double_limit)"
| "fits_c_double v = True"

definition values_fit :: "pydict \<Rightarrow> bool" where
  "values_fit inputDict = list_all (\<lambda>kv. fits_c_double (snd kv)) inputDict"

definition uniformly_sequence :: "pydict \<Rightarrow> bool" where
  "uniformly_sequence inputDict = list_all (\<lambda>kv. is_sequence (snd kv)) inputDict"

fun scalar_value :: "pyval \<Rightarrow> real" where
  "scalar_value (PyInt n) = of_int n"
| "scalar_value (PyFloat x) = x"
| "scalar_value (NpFloat64 x) = x"
| "scalar_value v = - 9999"

text \<open>The slot of a key: its value, or the sentinel when the key is absent.\<close>

definition slot_value :: "pydict \<Rightarrow> string \<Rightarrow> real" where
  "slot_value inputDict key =
     (case map_of inputDict key of Some v \<Rightarrow> scalar_value v | None \<Rightarrow> - 9999)"

subsection \<open>The bounce integral in the words of the specification\<close>

text \<open>The \<open>i\<close>-th of \<open>interpNum\<close> uniformly spaced arc parameters from \<open>sLow\<close> to
  \<open>sHigh\<close>.\<close>

definition resample_point :: "real \<Rightarrow> real \<Rightarrow> int \<Rightarrow> nat \<Rightarrow> real" where
  "resample_point sLow sHigh interpNum i =
     sLow + real i * ((sHigh - sLow) / real_of_int (interpNum - 1))"

text \<open>The distance in metres between the interpolated positions at \<open>s'\<close> and \<open>s\<close>.\<close>

definition arc_increment :: "fLine \<Rightarrow> real \<Rightarrow> real \<Rightarrow> real" where
  "arc_increment fLine s' s =
     6.371 * 10 ^ 6 *
       sqrt ((fl_fx fLine s - fl_fx fLine s') ^ 2 + (fl_fy fLine s - fl_fy fLine s') ^ 2
             + (fl_fz fLine s - fl_fz fLine s') ^ 2)"

definition relativistic_beta :: "real \<Rightarrow> real \<Rightarrow> real" where
  "relativistic_beta Ek Erest = sqrt (1 - 1 / (Ek / Erest + 1) ^ 2)"

definition parallel_velocity :: "real \<Rightarrow> real \<Rightarrow> real \<Rightarrow> real \<Rightarrow> real" where
  "parallel_velocity Ek Bm B Erest =
     c_light * relativistic_beta Ek Erest * sqrt (1 - \<bar>B / Bm\<bar>)"

text \<open>Twice the sum of \<open>ds / v\<close> over the interior resampled points
  \<open>1, \<dots>, interpNum - 2\<close>.\<close>

definition bounce_integral :: "fLine \<Rightarrow> real \<Rightarrow> real \<Rightarrow> int \<Rightarrow> real \<Rightarrow> real \<Rightarrow> real" where
  "bounce_integral fLine sLow sHigh interpNum Ek Erest =
     2 * (\<Sum>i = 1..<nat interpNum - 1.
            arc_increment fLine (resample_point sLow sHigh interpNum (i - 1))
                                (resample_point sLow sHigh interpNum i)
            / parallel_velocity Ek (fl_inputB fLine)
                (fl_fB fLine (resample_point sLow sHigh interpNum i) + fl_inputB fLine) Erest)"

subsection \<open>The radial distance of a point of the line\<close>


subsection \<open>The root finder\<close>

definition changes_sign :: "(real \<Rightarrow> real) \<Rightarrow> real \<Rightarrow> real \<Rightarrow> bool" where
  "changes_sign f a b = (f a * f b < 0)"

definition root_in :: "(real \<Rightarrow> real) \<Rightarrow> real \<Rightarrow> real \<Rightarrow> real \<Rightarrow> bool" where
  "root_in f a b r = (a \<le> r \<and> r \<le> b \<and> f r = 0)"

text \<open>
  What SciPy documents of \<^verbatim>\<open>brentq(f, a, b)\<close> with its default tolerances
  \<^verbatim>\<open>xtol = 2e-12\<close> and \<^verbatim>\<open>rtol = 4 * eps\<close>: the point \<open>x0\<close> returned and an
  exact zero \<open>x\<close> satisfy \<^verbatim>\<open>np.allclose(x, x0, atol = xtol, rtol = rtol)\<close>, that is
  \<open>\<bar>x - x0\<bar> \<le> xtol + rtol * \<bar>x0\<bar>\<close>. The point lies in the bracket, and need not be
  a zero itself.
\<close>

definition brentq_xtol :: real where
  "brentq_xtol = 2 / 10 ^ 12"

definition brentq_rtol :: real where
  "brentq_rtol = 4 / 2 ^ 52"

definition approx_root_in :: "(real \<Rightarrow> real) \<Rightarrow> real \<Rightarrow> real \<Rightarrow> real \<Rightarrow> bool" where
  "approx_root_in f a b r =
     (a \<le> r \<and> r \<le> b \<and> (\<exists>x. root_in f a b x \<and> \<bar>x - r\<bar> \<le> brentq_xtol + brentq_rtol * \<bar>r\<bar>))"

text \<open>The documented behaviour, for one call: when \<open>f\<close> changes sign over \<open>[a, b]\<close>,
  the call returns a point of \<open>[a, b]\<close> within the tolerance of a zero of \<open>f\<close> in
  \<open>[a, b]\<close>.\<close>

definition brentq_within_tolerance ::
  "externals \<Rightarrow> (real \<Rightarrow> real) \<Rightarrow> real \<Rightarrow> real \<Rightarrow> bool" where
  "brentq_within_tolerance ext f a b =
     (changes_sign f a b \<longrightarrow> (\<exists>r. brentq ext f a b = Inr r \<and> approx_root_in f a b r))"

subsection \<open>The interpolation constructor\<close>

text \<open>\<^verbatim>\<open>interp1d(x, y, kind = 'cubic')\<close> raises when given fewer than four points.\<close>

definition rejects_short :: "externals \<Rightarrow> bool" where
  "rejects_short ext = (\<forall>x y. length x < 4 \<longrightarrow> (\<exists>e. interp1d_cubic ext x y = Inl e))"

section \<open>Worked inputs\<close>

text \<open>
  An interpolation constructor for the examples: the polynomial through the
  samples in Lagrange form. For four samples this is the cubic that a
  not-a-knot cubic spline reduces to.
\<close>

definition lagrange :: "real list \<Rightarrow> real list \<Rightarrow> real \<Rightarrow> real" where
  "lagrange x y s =
     (\<Sum>j\<leftarrow>[0..<length x].
        y ! j * (\<Prod>m\<leftarrow>[0..<length x]. if m = j then 1 else (s - x ! m) / (x ! j - x ! m)))"

definition too_few :: py_error where
  "too_few = ValueError [''x and y arrays must have at least 4 entries'']"

definition interp1d_example :: "real list \<Rightarrow> real list \<Rightarrow> py_error + (real \<Rightarrow> real)" where
  "interp1d_example x y = (if length x < 4 then Inl too_few else Inr (lagrange x y))"

text \<open>A root finder for the examples: the sign test of \<^verbatim>\<open>brentq\<close>, then bisection.\<close>

fun bisect :: "(real \<Rightarrow> real) \<Rightarrow> real \<Rightarrow> real \<Rightarrow> nat \<Rightarrow> py_error + real" where
  "bisect f a b 0 = Inl (RuntimeError ''Failed to converge'')"
| "bisect f a b (Suc n) =
     (if f ((a + b) / 2) = 0 then Inr ((a + b) / 2)
      else if f a * f ((a + b) / 2) < 0 then bisect f a ((a + b) / 2) n
      else bisect f ((a + b) / 2) b n)"

definition brentq_example :: "(real \<Rightarrow> real) \<Rightarrow> real \<Rightarrow> real \<Rightarrow> py_error + real" where
  "brentq_example f a b =
     (if 0 < f a * f b then Inl (ValueError [sign_msg])
      else if f a = 0 then Inr a
      else if f b = 0 then Inr b
      else bisect f a b 50)"

text \<open>
  A trace of four samples on the axis \<open>x = y = 0\<close>, with field magnitudes
  9, 4, 3, 6, in buffers of 3000 entries; the field at the input point is 4, so the
  field deficit at the samples is 5, 0, -1, 2 and its cubic is \<open>(s - 1) (2 s - 5)\<close>.
\<close>

definition trace_example :: raw_trace where
  "trace_example =
     \<lparr>posit = [(0, 0, 3), (0, 0, 1), (0, 0, - 1), (0, 0, - 3)] @ replicate 2996 (0, 0, 0),
      blocal_buf = [9, 4, 3, 6] @ replicate 2996 0,
      Nposit_c = 4\<rparr>"

definition ext_example :: externals where
  "ext_example =
     \<lparr>make_lstar1 = (\<lambda>m. 4), trace_field_line2_1 = (\<lambda>m R0. trace_example),
      interp1d_cubic = interp1d_example, brentq = brentq_example\<rparr>"

definition fLine_example :: fLine where
  "fLine_example =
     \<lparr>fl_S = [0, 1, 2, 3],
      fl_fB = lagrange [0, 1, 2, 3] [5, 0, - 1, 2],
      fl_fx = lagrange [0, 1, 2, 3] [0, 0, 0, 0],
      fl_fy = lagrange [0, 1, 2, 3] [0, 0, 0, 0],
      fl_fz = lagrange [0, 1, 2, 3] [3, 1, - 1, - 3],
      fl_inputB = 4\<rparr>"

text \<open>
  A root finder that stops at the tolerance: after the tests of \<^verbatim>\<open>brentq\<close> on the
  ends of the bracket, it returns an end when the function changes sign within
  \<open>xtol\<close> of it, and bisects otherwise.
\<close>

definition brentq_tolerant :: "(real \<Rightarrow> real) \<Rightarrow> real \<Rightarrow> real \<Rightarrow> py_error + real" where
  "brentq_tolerant f a b =
     (if 0 < f a * f b then Inl (ValueError [sign_msg])
      else if f a = 0 then Inr a
      else if f b = 0 then Inr b
      else if f (b - brentq_xtol) * f b \<le> 0 then Inr b
      else if f a * f (a + brentq_xtol) \<le> 0 then Inr a
      else bisect f a b 50)"

text \<open>
  A line of four samples whose field deficit \<open>(s - 2 + e) (2 s - 5)\<close>, with
  \<open>e\<close> = \<^verbatim>\<open>1e-13\<close>, changes sign over \<open>[0, 2]\<close> and over \<open>[2, 3]\<close>; it has a
  zero \<^verbatim>\<open>1e-13\<close> below the middle 2.
\<close>

definition trace_near :: raw_trace where
  "trace_near =
     \<lparr>posit = [(0, 0, 3), (0, 0, 1), (0, 0, - 1), (0, 0, - 3)] @ replicate 2996 (0, 0, 0),
      blocal_buf = [14 - 5 / 10 ^ 13, 7 - 3 / 10 ^ 13, 4 - 1 / 10 ^ 13, 5 + 1 / 10 ^ 13]
                   @ replicate 2996 0,
      Nposit_c = 4\<rparr>"

definition ext_near :: externals where
  "ext_near =
     \<lparr>make_lstar1 = (\<lambda>m. 4), trace_field_line2_1 = (\<lambda>m R0. trace_near),
      interp1d_cubic = interp1d_example, brentq = brentq_tolerant\<rparr>"

definition fLine_near :: fLine where
  "fLine_near =
     \<lparr>fl_S = [0, 1, 2, 3],
      fl_fB = lagrange [0, 1, 2, 3]
                [10 - 5 / 10 ^ 13, 3 - 3 / 10 ^ 13, - (1 / 10 ^ 13), 1 + 1 / 10 ^ 13],
      fl_fx = lagrange [0, 1, 2, 3] [0, 0, 0, 0],
      fl_fy = lagrange [0, 1, 2, 3] [0, 0, 0, 0],
      fl_fz = lagrange [0, 1, 2, 3] [3, 1, - 1, - 3],
      fl_inputB = 4\<rparr>"




text \<open>Model inputs: one scalar for each of the 17 keys, inserted in reverse order; an int
  beyond the doubles; five values under one key; mixed dictionaries.\<close>

definition scalar_inputs :: pydict where
  "scalar_inputs =
     [(''AL'', PyInt 17), (''W6'', PyFloat 16), (''W5'', NpFloat64 15), (''W4'', PyInt 14),
      (''W3'', PyFloat 13), (''W2'', PyFloat 12), (''W1'', PyInt 11), (''G3'', PyFloat 10),
      (''G2'', NpFloat64 9), (''G1'', PyFloat 8), (''BzIMF'', PyInt 7), (''ByIMF'', PyFloat 6),
      (''Pdyn'', PyFloat 5), (''velo'', PyInt 4), (''dens'', NpFloat64 3), (''Dst'', PyInt 2),
      (''Kp'', PyFloat 1)]"

definition huge_inputs :: pydict where
  "huge_inputs = [(''Kp'', PyInt (10 ^ 309))]"

definition five_inputs :: pydict where
  "five_inputs = [(''Kp'', PyList [PyFloat 1, PyFloat 2, PyFloat 3, PyFloat 4, PyFloat 5])]"

definition mixed_inputs :: pydict where
  "mixed_inputs = [(''Kp'', PyList [PyFloat 1, PyFloat 2]), (''Dst'', NpFloat64 5)]"

definition annotated_inputs :: pydict where
  "annotated_inputs = [(''Kp'', PyFloat 1), (''note'', PyStr ''quiet day'')]"

definition text_inputs :: pydict where
  "text_inputs = [(''Kp'', PyStr ''high''), (''Dst'', PyFloat 1)]"

text \<open>The same line when the engine reports the sentinel, no sample, or three samples.\<close>

definition ext_open :: externals where
  "ext_open = ext_example\<lparr>trace_field_line2_1 := (\<lambda>m R0. trace_example\<lparr>Nposit_c := - 9999\<rparr>)\<rparr>"

definition ext_empty :: externals where
  "ext_empty = ext_example\<lparr>trace_field_line2_1 := (\<lambda>m R0. trace_example\<lparr>Nposit_c := 0\<rparr>)\<rparr>"

definition ext_short :: externals where
  "ext_short = ext_example\<lparr>trace_field_line2_1 := (\<lambda>m R0. trace_example\<lparr>Nposit_c := 3\<rparr>)\<rparr>"

text \<open>A root finder that meets a NaN, as SciPy reports it.\<close>

definition nan_msg :: string where
  "nan_msg = ''The function value at x=0.0 is NaN; solver cannot continue.''"

definition ext_nan :: externals where
  "ext_nan = ext_example\<lparr>brentq := (\<lambda>f a b. Inl (ValueError [nan_msg]))\<rparr>"

section \<open>Properties\<close>

subsection \<open>Evaluation of the worked inputs, printing and exceptions\<close>

lemma upt4: "[0..<4] = [0, 1, 2, 3]"
  by (simp add: upt_rec numeral_eq_Suc)

lemma lagrange4:
  "lagrange [0, 1, 2, 3] [y0, y1, y2, y3] s =
     y0 * ((s - 1) / (- 1) * ((s - 2) / (- 2)) * ((s - 3) / (- 3)))
   + y1 * (s * ((s - 2) / (- 1)) * ((s - 3) / (- 2)))
   + y2 * (s / 2 * (s - 1) * ((s - 3) / (- 1)))
   + y3 * (s / 3 * ((s - 1) / 2) * (s - 2))"
  by (simp add: lagrange_def upt4)

lemma fB_ex: "lagrange [0, 1, 2, 3] [5, 0, - 1, 2] s = (s - 1) * (2 * s - 5)"
  unfolding lagrange4 by (simp add: field_simps)

lemma fz_ex: "lagrange [0, 1, 2, 3] [3, 1, - 1, - 3] s = 3 - 2 * s"
  unfolding lagrange4 by (simp add: field_simps)

lemma f0_ex: "lagrange [0, 1, 2, 3] [0, 0, 0, 0] s = 0"
  unfolding lagrange4 by simp

lemma io_simps:
  "bind_io (l, Inl e) f = (l, Inl e)"
  "bind_io (l, Inr x) f = (l @ fst (f x), snd (f x))"
  "bind_io (lift_io (Inl e)) f = ([], Inl e)"
  "bind_io (lift_io (Inr x)) f = f x"
  "bind_io (return_io x) f = f x"
  "bind_io (raise_io e) f = ([], Inl e)"
  "bind_io (when_io False m) g = g ()"
  "bind_io (when_io True (print_io s)) g = (s # fst (g ()), snd (g ()))"
  by (simp_all add: bind_io_def lift_io_def return_io_def raise_io_def when_io_def print_io_def)

lemma err_simps:
  "bind_err (Inl e) f = Inl e"
  "bind_err (Inr x) f = f x"
  by (simp_all add: bind_err_def)

lemma interp_ex: "interpolate_field_line ext_example None R0 False = ([], Inr fLine_example)"
  by (simp add: interpolate_field_line_def make_lstar_def trace_field_line_def prepMagInput_def
      io_simps ext_example_def trace_example_def py_slice_to_def interp1d_example_def
      fLine_example_def upt4 return_io_def lift_io_def Let_def)




lemma bisect_mid: "0 < n \<Longrightarrow> f ((a + b) / 2) = 0 \<Longrightarrow> bisect f a b n = Inr ((a + b) / 2)"
  by (cases n) simp_all

lemma bracket_ex: "bracket_try ext_example fLine_example err = Inr (Some 1, Some (5 / 2))"
proof -
  have a: "brentq_example (\<lambda>s. (s - 1) * (2 * s - 5)) 0 2 = Inr 1"
    by (simp add: brentq_example_def bisect_mid)
  have b: "brentq_example (\<lambda>s. (s - 1) * (2 * s - 5)) 2 3 = Inr (5 / 2)"
    by (simp add: brentq_example_def bisect_mid)
  have c: "fl_fB fLine_example = (\<lambda>s. (s - 1) * (2 * s - 5))"
    by (rule ext) (simp add: fLine_example_def fB_ex)
  have d: "length (fl_S fLine_example) = 4" by (simp add: fLine_example_def)
  show ?thesis
    unfolding bracket_try_def c d by (simp add: ext_example_def a b)
qed





lemma snd_bind_io:
  "snd (bind_io m f) = (case snd m of Inl e \<Rightarrow> Inl e | Inr x \<Rightarrow> snd (f x))"
  by (simp add: bind_io_def split: sum.splits)

lemma fst_bind_io:
  "fst (bind_io m f) = (case snd m of Inl e \<Rightarrow> fst m | Inr x \<Rightarrow> fst m @ fst (f x))"
  by (simp add: bind_io_def split: sum.splits)

lemma snd_when_io [simp]: "snd (when_io b (print_io s)) = Inr ()"
  by (simp add: when_io_def print_io_def return_io_def)

lemma fst_when_io [simp]: "fst (when_io b (print_io s)) = (if b then [s] else [])"
  by (simp add: when_io_def print_io_def return_io_def)

lemma snd_lift_io [simp]: "snd (lift_io r) = r"
  by (simp add: lift_io_def)

lemma fst_lift_io [simp]: "fst (lift_io r) = []"
  by (simp add: lift_io_def)

lemma snd_return_io [simp]: "snd (return_io x) = Inr x"
  by (simp add: return_io_def)

lemma fst_return_io [simp]: "fst (return_io x) = []"
  by (simp add: return_io_def)

lemma snd_raise_io [simp]: "snd (raise_io e) = Inl e"
  by (simp add: raise_io_def)

lemma fst_raise_io [simp]: "fst (raise_io x) = []"
  by (simp add: raise_io_def)

lemma bind_err_Inr_iff: "bind_err m f = Inr y \<longleftrightarrow> (\<exists>x. m = Inr x \<and> f x = Inr y)"
  by (cases m) (simp_all add: bind_err_def)

lemma py_slice_to_nonneg: "0 \<le> n \<Longrightarrow> py_slice_to xs n = take (nat n) xs"
  by (simp add: py_slice_to_def)

text \<open>The result of the interpolator once the model inputs are prepared.\<close>

lemma snd_interpolate_field_line:
  assumes "prepMagInput maginput = Inr m"
  shows "snd (interpolate_field_line ext maginput R0 flag) =
    (let raw = trace_field_line2_1 ext m 1;
         out_POSIT = py_slice_to (posit raw) (Nposit_c raw);
         out_blocal = py_slice_to (blocal_buf raw) (Nposit_c raw);
         pos = py_slice_to out_POSIT (Nposit_c raw);
         S = map real [0..<length (py_slice_to out_blocal (Nposit_c raw))]
     in if Nposit_c raw = - 9999 then Inl (ValueError [''This is an open field line!''])
        else if out_POSIT = [] then Inl (IndexError ''too many indices for array'')
        else
          bind_err (interp1d_cubic ext S
              (map (\<lambda>b. b - make_lstar1 ext m) (py_slice_to out_blocal (Nposit_c raw)))) (\<lambda>fB.
          bind_err (interp1d_cubic ext S (map (\<lambda>(x, y, z). x) pos)) (\<lambda>fx.
          bind_err (interp1d_cubic ext S (map (\<lambda>(x, y, z). y) pos)) (\<lambda>fy.
          bind_err (interp1d_cubic ext S (map (\<lambda>(x, y, z). z) pos)) (\<lambda>fz.
          Inr \<lparr>fl_S = S, fl_fB = fB, fl_fx = fx, fl_fy = fy, fl_fz = fz,
                fl_inputB = make_lstar1 ext m\<rparr>)))))"
  using assms
  by (simp add: interpolate_field_line_def make_lstar_def trace_field_line_def snd_bind_io
      Let_def bind_err_def split: sum.splits)

subsection \<open>The open field line\<close>

text \<open>
  Claim C3. Whenever the point count \<^verbatim>\<open>Nposit\<close> of the traced field line is the
  sentinel -9999, \<^verbatim>\<open>_interpolate_field_line\<close> raises the open-field-line error
  and returns no interpolation result, and so do \<^verbatim>\<open>bounce_period\<close> and
  \<^verbatim>\<open>mirror_point_altitude\<close>. The trace exists once the model inputs are prepared;
  it is made with the stop radius 1.
\<close>

theorem open_field_line:
  assumes "prepMagInput maginput = Inr m"
    and "Nposit_c (trace_field_line2_1 ext m 1) = - 9999"
  shows "snd (interpolate_field_line ext maginput R0 flag)
           = Inl (ValueError [''This is an open field line!''])
       \<and> snd (bounce_period ext maginput E Erest R0 flag interpNum)
           = Inl (ValueError [''This is an open field line!''])
       \<and> snd (mirror_point_altitude ext maginput R0 flag)
           = Inl (ValueError [''This is an open field line!''])"
proof -
  have "snd (interpolate_field_line ext maginput R0 flag)
           = Inl (ValueError [''This is an open field line!''])"
    using assms by (simp add: snd_interpolate_field_line)
  then show ?thesis
    by (simp add: bounce_period_def mirror_point_altitude_def snd_bind_io)
qed

lemma prep_None: "prepMagInput None = Inr (Vec (replicate 25 (- 9999)))"
  by (simp add: prepMagInput_def)

theorem open_field_line_witness:
  "snd (interpolate_field_line ext_open None 1 False)
           = Inl (ValueError [''This is an open field line!''])
       \<and> snd (bounce_period ext_open None (EScalar 100) 511 1 False 100000)
           = Inl (ValueError [''This is an open field line!''])
       \<and> snd (mirror_point_altitude ext_open None 1 False)
           = Inl (ValueError [''This is an open field line!''])"
  using open_field_line [of None "Vec (replicate 25 (- 9999))" ext_open]
  by (simp add: prep_None ext_open_def ext_example_def)

subsection \<open>Model inputs\<close>

lemma mapM_err_all_Inr:
  "(\<And>x. x \<in> set xs \<Longrightarrow> f x = Inr (g x)) \<Longrightarrow> mapM_err f xs = Inr (map g xs)"
  by (induction xs) auto

lemma c_double_set_scalar:
  "is_scalar v \<Longrightarrow> fits_c_double v \<Longrightarrow> c_double_set v = Inr (scalar_value v)"
  by (cases v) (auto simp: is_scalar_def)

lemma fill_slot_scalar:
  assumes "uniformly_scalar inputDict" and "values_fit inputDict"
  shows "fill_slot inputDict key = Inr (slot_value inputDict key)"
proof (cases "map_of inputDict key")
  case None
  then show ?thesis by (simp add: fill_slot_def slot_value_def)
next
  case (Some v)
  then have "(key, v) \<in> set inputDict" by (rule map_of_SomeD)
  with assms have "is_scalar v" "fits_c_double v"
    by (auto simp: uniformly_scalar_def values_fit_def list_all_iff)
  with Some show ?thesis by (simp add: fill_slot_def slot_value_def c_double_set_scalar)
qed

text \<open>
  Claim C6, amended. For every non-empty model-input dictionary whose values are all
  of type int, float or numpy.float64, the ints within the range of a double,
  \<^verbatim>\<open>_prepMagInput\<close> returns the parameter vector of the engine: 25 slots, of which
  the first 17 are, in this order, the slots of Kp, Dst, dens, velo, Pdyn, ByIMF,
  BzIMF, G1, G2, G3, W1, W2, W3, W4, W5, W6, AL, each holding the value of its key,
  or -9999 when the key is absent; the last 8 slots are 0.
\<close>

theorem prepMagInput_scalar:
  assumes "inputDict \<noteq> []" and "uniformly_scalar inputDict" and "values_fit inputDict"
  shows "prepMagInput (Some inputDict) =
           Inr (Vec ([slot_value inputDict ''Kp'', slot_value inputDict ''Dst'',
                      slot_value inputDict ''dens'', slot_value inputDict ''velo'',
                      slot_value inputDict ''Pdyn'', slot_value inputDict ''ByIMF'',
                      slot_value inputDict ''BzIMF'', slot_value inputDict ''G1'',
                      slot_value inputDict ''G2'', slot_value inputDict ''G3'',
                      slot_value inputDict ''W1'', slot_value inputDict ''W2'',
                      slot_value inputDict ''W3'', slot_value inputDict ''W4'',
                      slot_value inputDict ''W5'', slot_value inputDict ''W6'',
                      slot_value inputDict ''AL'']
                     @ [0, 0, 0, 0, 0, 0, 0, 0]))"
proof -
  obtain key0 val0 rest where d: "inputDict = (key0, val0) # rest"
    using assms(1) by (cases inputDict) auto
  with assms(2) have "is_scalar val0" by (simp add: uniformly_scalar_def)
  then have ty: "type_of val0 \<in> set [T_int, T_float, T_np_float64]"
    "type_of val0 \<notin> set [T_ndarray, T_list]"
    by (auto simp: is_scalar_def)
  have "mapM_err (fill_slot inputDict) orderedKeys = Inr (map (slot_value inputDict) orderedKeys)"
    by (rule mapM_err_all_Inr) (rule fill_slot_scalar [OF assms(2,3)])
  with ty have "prepMagInput (Some inputDict) =
           Inr (Vec (map (slot_value inputDict) orderedKeys @ replicate 8 0))"
    unfolding prepMagInput_def d [symmetric]
    by (simp add: d bind_err_def Let_def del: set_simps)
  then show ?thesis by (simp add: orderedKeys_def numeral_eq_Suc)
qed

theorem prepMagInput_scalar_witness:
  "prepMagInput (Some scalar_inputs) =
     Inr (Vec ([1, 2, 3, 4, 5, 6, 7, 8, 9, 10, 11, 12, 13, 14, 15, 16, 17]
               @ [0, 0, 0, 0, 0, 0, 0, 0]))"
proof -
  have "scalar_inputs \<noteq> []" "uniformly_scalar scalar_inputs" "values_fit scalar_inputs"
    by (simp_all add: scalar_inputs_def uniformly_scalar_def is_scalar_def values_fit_def
        c_double_limit_def)
  from prepMagInput_scalar [OF this] show ?thesis
    by (simp add: slot_value_def scalar_inputs_def)
qed

text \<open>The empty dictionary has only scalar values, and \<^verbatim>\<open>_prepMagInput\<close> raises
  on its first key; an int beyond the doubles is scalar, and storing it raises.\<close>

theorem prepMagInput_empty_counterexample:
  "uniformly_scalar [] \<and> prepMagInput (Some []) = Inl (IndexError ''list index out of range'')
   \<and> uniformly_scalar huge_inputs
   \<and> prepMagInput (Some huge_inputs)
       = Inl (OverflowError ''int too large to convert to float'')"
  by (simp add: uniformly_scalar_def prepMagInput_def huge_inputs_def is_scalar_def
      orderedKeys_def fill_slot_def bind_err_def c_double_limit_def)

text \<open>
  Claim C4, at the input \<^verbatim>\<open>{'Kp': [1.0, 2.0, 3.0, 4.0, 5.0]}\<close>. The matrix that
  \<^verbatim>\<open>_prepMagInput\<close> builds has two columns, the length of the name \<^verbatim>\<open>Kp\<close>, and
  not five, the number of supplied values: \<^verbatim>\<open>nTimePy\<close> is
  \<^verbatim>\<open>len(list(inputDict.keys())[0])\<close>.
\<close>

theorem prepMagInput_columns:
  "prepMagInput (Some five_inputs)
     = Inr (Mat ([1, 2] # replicate 16 [- 9999, - 9999] @ replicate 8 [0, 0]))"
  by (simp add: five_inputs_def prepMagInput_def fill_row_def orderedKeys_def bind_err_def
      upt_rec numeral_eq_Suc)

lemma mapM_err_Inl: "mapM_err f xs = Inl e \<Longrightarrow> \<exists>x\<in>set xs. f x = Inl e"
  by (induction xs) (auto split: sum.splits)

lemma c_double_set_not_format: "c_double_set v \<noteq> Inl (TypeError unrecognizable)"
  by (cases v) (simp_all add: unrecognizable_def)

lemma py_getitem_not_format: "py_getitem v i \<noteq> Inl (TypeError unrecognizable)"
  by (cases v) (simp_all add: unrecognizable_def)

lemma fill_slot_not_format: "fill_slot inputDict key \<noteq> Inl (TypeError unrecognizable)"
  by (simp add: fill_slot_def c_double_set_not_format split: option.splits)

lemma fill_row_not_format: "fill_row inputDict n key \<noteq> Inl (TypeError unrecognizable)"
proof
  assume "fill_row inputDict n key = Inl (TypeError unrecognizable)"
  then obtain dt where
    "(case map_of inputDict key of
        Some v \<Rightarrow> bind_err (py_getitem v dt) c_double_set
      | None \<Rightarrow> Inr (- 9999)) = Inl (TypeError unrecognizable)"
    unfolding fill_row_def by (blast dest: mapM_err_Inl)
  then show False
    using c_double_set_not_format py_getitem_not_format
    by (auto simp: bind_err_def split: option.splits sum.splits)
qed

text \<open>
  Claim C9, amended. \<^verbatim>\<open>_prepMagInput\<close> raises its \<^verbatim>\<open>TypeError\<close> exactly when the
  value of the first key of the dictionary is neither a list or numpy array nor an
  int, float or numpy.float64; the values of the other keys are assumed to be of
  the type of the first and are not checked.
\<close>

theorem prepMagInput_TypeError:
  "prepMagInput (Some inputDict) = Inl (TypeError unrecognizable)
     \<longleftrightarrow> (\<exists>key0 val0 rest. inputDict = (key0, val0) # rest
            \<and> \<not> is_sequence val0 \<and> \<not> is_scalar val0)"
proof (cases inputDict)
  case Nil
  then show ?thesis by (simp add: prepMagInput_def)
next
  case (Cons kv rest)
  obtain key0 val0 where kv: "kv = (key0, val0)" by (cases kv)
  have rows: "mapM_err (fill_row inputDict n) orderedKeys \<noteq> Inl (TypeError unrecognizable)"
    for n using fill_row_not_format by (blast dest: mapM_err_Inl)
  have slots: "mapM_err (fill_slot inputDict) orderedKeys \<noteq> Inl (TypeError unrecognizable)"
    using fill_slot_not_format by (blast dest: mapM_err_Inl)
  show ?thesis
    using rows [of "length key0"] slots
    unfolding prepMagInput_def is_sequence_def is_scalar_def
    by (auto simp add: Cons kv Let_def bind_err_def simp del: set_simps split: sum.splits)
qed

theorem prepMagInput_TypeError_witness:
  "prepMagInput (Some text_inputs) = Inl (TypeError unrecognizable)"
  using prepMagInput_TypeError [of text_inputs]
  by (simp add: text_inputs_def is_sequence_def is_scalar_def)

text \<open>Two dictionaries of mixed values: one ends in an \<^verbatim>\<open>IndexError\<close>, for the other
  \<^verbatim>\<open>_prepMagInput\<close> returns.\<close>

theorem prepMagInput_mixed_counterexample:
  "\<not> uniformly_scalar mixed_inputs \<and> \<not> uniformly_sequence mixed_inputs
   \<and> prepMagInput (Some mixed_inputs) = Inl (IndexError ''invalid index to scalar variable.'')
   \<and> \<not> uniformly_scalar annotated_inputs \<and> \<not> uniformly_sequence annotated_inputs
   \<and> prepMagInput (Some annotated_inputs)
       = Inr (Vec (1 # replicate 16 (- 9999) @ replicate 8 0))"
  by (simp add: mixed_inputs_def annotated_inputs_def uniformly_scalar_def
      uniformly_sequence_def is_scalar_def is_sequence_def prepMagInput_def fill_row_def
      fill_slot_def orderedKeys_def bind_err_def upt_rec numeral_eq_Suc)

subsection \<open>Interpolation, bracket and altitude\<close>

lemma fB_example: "fl_fB fLine_example = (\<lambda>s. (s - 1) * (2 * s - 5))"
  by (rule ext) (simp add: fLine_example_def fB_ex)

lemma len_example: "length (fl_S fLine_example) = 4"
  by (simp add: fLine_example_def)

lemma brentq_example_lo: "brentq ext_example (\<lambda>s. (s - 1) * (2 * s - 5)) 0 2 = Inr 1"
  by (simp add: ext_example_def brentq_example_def bisect_mid)

lemma brentq_example_hi: "brentq ext_example (\<lambda>s. (s - 1) * (2 * s - 5)) 2 3 = Inr (5 / 2)"
  by (simp add: ext_example_def brentq_example_def bisect_mid)

lemma within_toleranceI:
  "brentq ext f a b = Inr r \<Longrightarrow> approx_root_in f a b r \<Longrightarrow> brentq_within_tolerance ext f a b"
  by (simp add: brentq_within_tolerance_def)

lemma approx_root_exact: "root_in f a b r \<Longrightarrow> approx_root_in f a b r"
  unfolding approx_root_in_def root_in_def
  by (intro conjI exI [of _ r]) (simp_all add: brentq_xtol_def brentq_rtol_def)

text \<open>
  Claim C2, amended. Let the interpolated field deficit \<open>fB\<close> of a field line of \<open>N\<close>
  samples change sign over \<open>[0, N/2]\<close> and over \<open>[N/2, N - 1]\<close>, and let each of the
  two calls of \<^verbatim>\<open>brentq\<close> return, as SciPy documents, a point of its bracket
  within the tolerance of a zero of \<open>fB\<close> in that bracket. Then the \<^verbatim>\<open>try\<close>
  statement of \<^verbatim>\<open>bounce_period\<close> and of \<^verbatim>\<open>mirror_point_altitude\<close> binds
  \<^verbatim>\<open>startInd\<close> to the point \<open>sLow\<close> returned for \<open>[0, N/2]\<close> and \<^verbatim>\<open>endInd\<close> to
  the point \<open>sHigh\<close> returned for \<open>[N/2, N - 1]\<close>, each a zero of \<open>fB\<close> up to the
  tolerance, and \<open>0 \<le> sLow \<le> N/2 \<le> sHigh \<le> N - 1\<close>. The two brackets share the
  point \<open>N/2\<close>, and \<open>sLow = N/2\<close> is not excluded. The bound \<open>4 \<le> N\<close> of the claim is
  not needed.
\<close>

theorem mirror_bracket:
  assumes "changes_sign (fl_fB fLine) 0 (real (length (fl_S fLine)) / 2)"
    and "changes_sign (fl_fB fLine) (real (length (fl_S fLine)) / 2)
           (real (length (fl_S fLine)) - 1)"
    and "brentq_within_tolerance ext (fl_fB fLine) 0 (real (length (fl_S fLine)) / 2)"
    and "brentq_within_tolerance ext (fl_fB fLine) (real (length (fl_S fLine)) / 2)
           (real (length (fl_S fLine)) - 1)"
  shows "\<exists>sLow sHigh.
           bracket_try ext fLine err = Inr (Some sLow, Some sHigh)
         \<and> brentq ext (fl_fB fLine) 0 (real (length (fl_S fLine)) / 2) = Inr sLow
         \<and> brentq ext (fl_fB fLine) (real (length (fl_S fLine)) / 2)
              (real (length (fl_S fLine)) - 1) = Inr sHigh
         \<and> approx_root_in (fl_fB fLine) 0 (real (length (fl_S fLine)) / 2) sLow
         \<and> approx_root_in (fl_fB fLine) (real (length (fl_S fLine)) / 2)
              (real (length (fl_S fLine)) - 1) sHigh
         \<and> 0 \<le> sLow \<and> sLow \<le> real (length (fl_S fLine)) / 2
         \<and> real (length (fl_S fLine)) / 2 \<le> sHigh
         \<and> sHigh \<le> real (length (fl_S fLine)) - 1"
proof -
  let ?f = "fl_fB fLine" and ?mid = "real (length (fl_S fLine)) / 2"
  let ?top = "real (length (fl_S fLine)) - 1"
  from assms(1,3) obtain sLow where
    lo: "brentq ext ?f 0 ?mid = Inr sLow" "approx_root_in ?f 0 ?mid sLow"
    by (auto simp: brentq_within_tolerance_def)
  from assms(2,4) obtain sHigh where
    hi: "brentq ext ?f ?mid ?top = Inr sHigh" "approx_root_in ?f ?mid ?top sHigh"
    by (auto simp: brentq_within_tolerance_def)
  have "bracket_try ext fLine err = Inr (Some sLow, Some sHigh)"
    by (simp add: bracket_try_def lo(1) hi(1))
  moreover from lo(2) have "0 \<le> sLow" "sLow \<le> ?mid"
    by (simp_all add: approx_root_in_def)
  moreover from hi(2) have "?mid \<le> sHigh" "sHigh \<le> ?top"
    by (simp_all add: approx_root_in_def)
  ultimately show ?thesis
    using lo hi by blast
qed

lemma brentq_fLine_example:
  "brentq ext_example (fl_fB fLine_example) 0 2 = Inr 1"
  "brentq ext_example (fl_fB fLine_example) 2 3 = Inr (5 / 2)"
  unfolding fB_example by (rule brentq_example_lo brentq_example_hi)+

theorem mirror_bracket_witness:
  "bracket_try ext_example fLine_example below_ground_long = Inr (Some 1, Some (5 / 2))
   \<and> approx_root_in (fl_fB fLine_example) 0 2 1
   \<and> approx_root_in (fl_fB fLine_example) 2 3 (5 / 2)
   \<and> changes_sign (fl_fB fLine_example) 0 2 \<and> changes_sign (fl_fB fLine_example) 2 3"
proof -
  have roots: "root_in (fl_fB fLine_example) 0 2 1" "root_in (fl_fB fLine_example) 2 3 (5 / 2)"
    by (simp_all add: root_in_def fB_example)
  have signs: "changes_sign (fl_fB fLine_example) 0 2" "changes_sign (fl_fB fLine_example) 2 3"
    by (simp_all add: changes_sign_def fB_example)
  have tol: "brentq_within_tolerance ext_example (fl_fB fLine_example) 0 2"
    "brentq_within_tolerance ext_example (fl_fB fLine_example) 2 3"
    by (rule within_toleranceI brentq_fLine_example roots [THEN approx_root_exact])+
  have mid: "real (length (fl_S fLine_example)) / 2 = 2"
    "real (length (fl_S fLine_example)) - 1 = 3"
    by (simp_all add: len_example)
  from mirror_bracket [of fLine_example ext_example below_ground_long, unfolded mid,
      OF signs tol]
  obtain sLow sHigh where
    r: "bracket_try ext_example fLine_example below_ground_long = Inr (Some sLow, Some sHigh)"
      "brentq ext_example (fl_fB fLine_example) 0 2 = Inr sLow"
      "brentq ext_example (fl_fB fLine_example) 2 3 = Inr sHigh"
      "approx_root_in (fl_fB fLine_example) 0 2 sLow"
      "approx_root_in (fl_fB fLine_example) 2 3 sHigh"
    by blast
  from r(2,3) have "1 = sLow" "5 / 2 = sHigh"
    by (simp_all only: brentq_fLine_example sum.inject)
  with r(1,4,5) signs show ?thesis
    by (simp only: simp_thms)
qed

lemma lagrange_near:
  "lagrange [0, 1, 2, 3] [10 - 5 * e, 3 - 3 * e, - e, 1 + e] s = (s - 2 + e) * (2 * s - 5)"
  unfolding lagrange4 by (simp add: field_simps)

lemma fB_near: "fl_fB fLine_near = (\<lambda>s. (s - 2 + 1 / 10 ^ 13) * (2 * s - 5))"
  using lagrange_near [of "1 / 10 ^ 13"] by (intro ext) (simp add: fLine_near_def)

lemma len_near: "length (fl_S fLine_near) = 4"
  by (simp add: fLine_near_def)

lemma brentq_near_lo:
  "brentq ext_near (\<lambda>s. (s - 2 + 1 / 10 ^ 13) * (2 * s - 5)) 0 2 = Inr 2"
  by (simp add: ext_near_def brentq_tolerant_def brentq_xtol_def)

lemma brentq_near_hi:
  "brentq ext_near (\<lambda>s. (s - 2 + 1 / 10 ^ 13) * (2 * s - 5)) 2 3 = Inr (5 / 2)"
  by (simp add: ext_near_def brentq_tolerant_def brentq_xtol_def bisect_mid)


lemma interp_near: "interpolate_field_line ext_near None R0 False = ([], Inr fLine_near)"
  by (simp add: interpolate_field_line_def make_lstar_def trace_field_line_def prepMagInput_def
      io_simps ext_near_def trace_near_def py_slice_to_def interp1d_example_def
      fLine_near_def upt4 return_io_def lift_io_def Let_def)

lemma brentq_fLine_near:
  "brentq ext_near (fl_fB fLine_near) 0 2 = Inr 2"
  "brentq ext_near (fl_fB fLine_near) 2 3 = Inr (5 / 2)"
  unfolding fB_near by (rule brentq_near_lo brentq_near_hi)+

lemma root_near: "root_in (fl_fB fLine_near) 0 2 (2 - 1 / 10 ^ 13)"
  by (simp add: root_in_def fB_near)

lemma approx_near: "approx_root_in (fl_fB fLine_near) 0 2 2"
  unfolding approx_root_in_def
  by (intro conjI exI [of _ "2 - 1 / 10 ^ 13"] root_near)
    (simp_all add: brentq_xtol_def brentq_rtol_def)

lemma root_near_hi: "root_in (fl_fB fLine_near) 2 3 (5 / 2)"
  by (simp add: root_in_def fB_near)

text \<open>
  On the line whose field deficit has a zero \<^verbatim>\<open>1e-13\<close> below the middle, the deficit
  changes sign over both halves, the root finder stays within the tolerance, and
  \<^verbatim>\<open>startInd\<close> is the middle \<open>N/2 = 2\<close> itself, not a point below it.
\<close>

theorem mirror_bracket_strict_counterexample:
  "snd (interpolate_field_line ext_near None 1 False) = Inr fLine_near
   \<and> changes_sign (fl_fB fLine_near) 0 2 \<and> changes_sign (fl_fB fLine_near) 2 3
   \<and> brentq_within_tolerance ext_near (fl_fB fLine_near) 0 2
   \<and> brentq_within_tolerance ext_near (fl_fB fLine_near) 2 3
   \<and> root_in (fl_fB fLine_near) 0 2 (2 - 1 / 10 ^ 13)
   \<and> bracket_try ext_near fLine_near below_ground_long = Inr (Some 2, Some (5 / 2))
   \<and> real (length (fl_S fLine_near)) / 2 = 2"
proof -
  have "brentq_within_tolerance ext_near (fl_fB fLine_near) 0 2"
    by (rule within_toleranceI brentq_fLine_near approx_near)+
  moreover have "brentq_within_tolerance ext_near (fl_fB fLine_near) 2 3"
    by (rule within_toleranceI brentq_fLine_near root_near_hi [THEN approx_root_exact])+
  moreover have "changes_sign (fl_fB fLine_near) 0 2" "changes_sign (fl_fB fLine_near) 2 3"
    by (simp_all add: changes_sign_def fB_near)
  moreover have "bracket_try ext_near fLine_near below_ground_long = Inr (Some 2, Some (5 / 2))"
    by (simp add: bracket_try_def len_near brentq_fLine_near)
  ultimately show ?thesis
    using root_near by (simp add: interp_near len_near)
qed




lemma local_var_Inr: "local_var name v = Inr x \<longleftrightarrow> v = Some x"
  by (cases v) (simp_all add: local_var_def)



















text \<open>
  Claim C7, amended. If the trace has one, two or three samples,
  \<^verbatim>\<open>_interpolate_field_line\<close> makes no check of its own: it calls the constructor
  of the cubic interpolation on the field deficit, and the exception that this
  constructor raises for fewer than four points is what the caller gets; no
  interpolation result is returned.
\<close>

theorem short_trace:
  assumes "prepMagInput maginput = Inr m"
    and "1 \<le> Nposit_c (trace_field_line2_1 ext m 1)"
    and "Nposit_c (trace_field_line2_1 ext m 1) < 4"
    and "posit (trace_field_line2_1 ext m 1) \<noteq> []"
    and "rejects_short ext"
  shows "\<exists>e. interp1d_cubic ext
               (map real [0..<length (take (nat (Nposit_c (trace_field_line2_1 ext m 1)))
                                        (blocal_buf (trace_field_line2_1 ext m 1)))])
               (map (\<lambda>b. b - make_lstar1 ext m)
                  (take (nat (Nposit_c (trace_field_line2_1 ext m 1)))
                     (blocal_buf (trace_field_line2_1 ext m 1)))) = Inl e
           \<and> snd (interpolate_field_line ext maginput R0 flag) = Inl e"
proof -
  let ?raw = "trace_field_line2_1 ext m 1"
  let ?N = "Nposit_c ?raw"
  let ?b = "take (nat ?N) (blocal_buf ?raw)"
  let ?S = "map real [0..<length ?b]"
  have "length ?S < 4" using assms(3) by simp
  with assms(5) obtain e where
    e: "interp1d_cubic ext ?S (map (\<lambda>b. b - make_lstar1 ext m) ?b) = Inl e"
    unfolding rejects_short_def by blast
  have pos: "take (nat ?N) (posit ?raw) \<noteq> []"
    using assms(2,4) by (cases "posit ?raw") (auto simp: take_Cons')
  have "snd (interpolate_field_line ext maginput R0 flag) = Inl e"
    using assms(1,2) pos e
    by (simp add: snd_interpolate_field_line Let_def py_slice_to_nonneg bind_err_def)
  with e show ?thesis by blast
qed

lemma rejects_short_example: "rejects_short ext_short"
  by (simp add: rejects_short_def ext_short_def ext_example_def interp1d_example_def)

theorem short_trace_witness:
  "interp1d_cubic ext_short [0, 1, 2] [5, 0, - 1] = Inl too_few
   \<and> snd (interpolate_field_line ext_short None 1 False) = Inl too_few"
proof -
  have 3: "[0..<3] = [0, 1, 2]" by (simp add: upt_rec numeral_eq_Suc)
  have 4: "take 3 ([9, 4, 3, 6] @ replicate 2996 (0::real)) = [9, 4, 3]"
    by (simp add: take_Cons')
  show ?thesis
    using short_trace [of None "Vec (replicate 25 (- 9999))" ext_short 1 False]
      rejects_short_example
    by (simp add: prep_None ext_short_def ext_example_def trace_example_def
        interp1d_example_def 3 4)
qed

text \<open>
  A trace of no sample is not the sentinel, and the interpolator fails on it with an
  \<^verbatim>\<open>IndexError\<close> of the position slice.
\<close>

theorem empty_trace_counterexample:
  "Nposit_c (trace_field_line2_1 ext_empty (Vec (replicate 25 (- 9999))) 1) = 0
   \<and> snd (interpolate_field_line ext_empty None 1 False)
       = Inl (IndexError ''too many indices for array'')"
  by (simp add: snd_interpolate_field_line [OF prep_None] ext_empty_def ext_example_def
      trace_example_def py_slice_to_def)

lemma no_warning_in_interpolate:
  "density_warning \<notin> set (fst (interpolate_field_line ext maginput R0 flag))"
  by (simp add: interpolate_field_line_def make_lstar_def trace_field_line_def fst_bind_io
      snd_bind_io Let_def density_warning_def split: sum.splits)

text \<open>
  Claim C8, amended. In a call of \<^verbatim>\<open>bounce_period\<close> that has interpolated the
  line and left the \<^verbatim>\<open>try\<close> statement, the warning is printed exactly when the
  number of samples of the trace exceeds the requested resample count
  \<^verbatim>\<open>interpNum\<close>; it is not an exception, and the call goes on to resample and
  integrate, with the same result as without the warning.
\<close>

theorem density_warning_condition:
  assumes "snd (interpolate_field_line ext maginput R0 flag) = Inr fLine"
    and "bracket_try ext fLine below_ground_long = Inr inds"
  shows "(density_warning \<in> set (fst (bounce_period ext maginput E Erest R0 flag interpNum))
            \<longleftrightarrow> interpNum < int (length (fl_S fLine)))
       \<and> snd (bounce_period ext maginput E Erest R0 flag interpNum)
            = resample_and_integrate fLine (fst inds) (snd inds) interpNum E Erest"
  using assms no_warning_in_interpolate [of ext maginput R0 flag]
  by (simp add: bounce_period_def fst_bind_io snd_bind_io density_warning_def)

theorem density_warning_condition_witness:
  "(density_warning \<in> set (fst (bounce_period ext_example None (EScalar 2) 3 1 False 3))
            \<longleftrightarrow> (3::int) < int (length (fl_S fLine_example)))
   \<and> length (fl_S fLine_example) = 4
   \<and> snd (bounce_period ext_example None (EScalar 2) 3 1 False 3)
        = resample_and_integrate fLine_example (Some 1) (Some (5 / 2)) 3 (EScalar 2) 3"
  using density_warning_condition [of ext_example None 1 False fLine_example
      "(Some 1, Some (5 / 2))" "EScalar 2" 3 3]
  by (simp add: interp_ex bracket_ex len_example)

text \<open>
  On the worked line, of four samples, a request of five resampled points prints
  nothing.
\<close>

theorem density_warning_counterexample:
  "fst (bounce_period ext_example None (EScalar 2) 3 1 False 5) = []
   \<and> snd (interpolate_field_line ext_example None 1 False) = Inr fLine_example
   \<and> length (fl_S fLine_example) = 4"
  by (simp add: bounce_period_def fst_bind_io snd_bind_io interp_ex bracket_ex len_example)

lemma interp_nan: "interpolate_field_line ext_nan None R0 False = ([], Inr fLine_example)"
  by (simp add: interpolate_field_line_def make_lstar_def trace_field_line_def prepMagInput_def
      io_simps ext_nan_def ext_example_def trace_example_def py_slice_to_def
      interp1d_example_def fLine_example_def upt4 return_io_def lift_io_def Let_def)

lemma bracket_nan: "bracket_try ext_nan fLine err = Inr (None, None)"
  by (simp add: bracket_try_def ext_nan_def ext_example_def bracket_handler_def nan_msg_def
      sign_msg_def)

text \<open>
  Claim C10, at a root finder that raises a \<^verbatim>\<open>ValueError\<close> whose text is not
  the one the handler looks for. The handler ends without raising, so
  \<^verbatim>\<open>bounce_period\<close> goes on, prints its warning and fails when it reads the
  unbound \<^verbatim>\<open>startInd\<close>; \<^verbatim>\<open>mirror_point_altitude\<close> fails in the same way.
  The caller gets an \<^verbatim>\<open>UnboundLocalError\<close>, and the \<^verbatim>\<open>ValueError\<close> is lost.
\<close>

theorem swallowed_ValueError:
  "brentq ext_nan (fl_fB fLine_example) 0 (real (length (fl_S fLine_example)) / 2)
     = Inl (ValueError [nan_msg])
   \<and> bounce_period ext_nan None (EScalar 2) 3 1 False 3
     = ([density_warning], Inl (UnboundLocalError ''startInd''))
   \<and> mirror_point_altitude ext_nan None 1 False
     = ([], Inl (UnboundLocalError ''startInd''))"
  by (simp add: bounce_period_def mirror_point_altitude_def io_simps interp_nan bracket_nan
      len_example resample_and_integrate_def local_var_def err_simps lift_io_def
      when_io_def print_io_def return_io_def bind_io_def)
    (simp add: ext_nan_def ext_example_def)

subsection \<open>The bounce integral\<close>

lemma np_linspace_Inr:
  assumes "np_linspace s0 s1 n = Inr xs"
  shows "length xs = nat n"
    and "\<And>i. i < nat n \<Longrightarrow> xs ! i = resample_point s0 s1 n i"
proof -
  from assms have n: "\<not> n < 0" by (auto simp: np_linspace_def split: if_splits)
  show "length xs = nat n"
    using assms n by (auto simp: np_linspace_def split: if_splits)
  show "xs ! i = resample_point s0 s1 n i" if "i < nat n" for i
    using assms n that by (auto simp: np_linspace_def resample_point_def split: if_splits)
qed

lemma interp_call_Inr: "interp_call fLine f xs = Inr ys \<Longrightarrow> ys = map f xs"
  by (auto simp: interp_call_def split: if_splits)

lemma py_slice_inner_nth: "py_slice_inner xs = map (\<lambda>i. xs ! i) [1..<length xs - 1]"
  by (rule nth_equalityI) (auto simp: py_slice_inner_def nth_butlast nth_tl)

lemma conv_full_nth:
  assumes "1 \<le> i" and "i < length a"
  shows "np_convolve_full a [- 1, 1] ! i = a ! (i - 1) - a ! i"
proof -
  define h where "h = (\<lambda>m. if m \<le> i \<and> i - m < length [- 1, 1 :: real]
                         then a ! m * [- 1, 1] ! (i - m) else 0)"
  have "np_convolve_full a [- 1, 1] ! i = (\<Sum>m\<leftarrow>[0..<length a]. h m)"
    unfolding np_convolve_full_def
    by (subst nth_map_upt) (use assms in \<open>simp_all add: h_def cong: if_cong\<close>)
  also have "\<dots> = sum h {0..<length a}"
    by (simp add: interv_sum_list_conv_sum_set_nat)
  also have "\<dots> = sum h {i - 1, i}"
    using assms by (intro sum.mono_neutral_right) (auto simp: h_def)
  also have "\<dots> = h (i - 1) + h i"
    using assms by simp
  also have "\<dots> = a ! (i - 1) - a ! i"
    using assms by (simp add: h_def)
  finally show ?thesis .
qed

lemma np_convolve_same_diff:
  assumes "np_convolve_same a [- 1, 1] = Inr d"
  shows "length d = max (length a) 2"
    and "\<And>i. 1 \<le> i \<Longrightarrow> i < length a \<Longrightarrow> d ! i = a ! (i - 1) - a ! i"
proof -
  consider "length a = 0" | "length a = 1" | "2 \<le> length a" by linarith
  then have "length d = max (length a) 2
      \<and> (\<forall>i. 1 \<le> i \<longrightarrow> i < length a \<longrightarrow> d ! i = a ! (i - 1) - a ! i)"
  proof cases
    case 1
    with assms show ?thesis by (simp add: np_convolve_same_def)
  next
    case 2
    with assms show ?thesis
      by (auto simp: np_convolve_same_def np_convolve_full_def)
  next
    case 3
    with assms have d: "d = take (length a) (np_convolve_full a [- 1, 1])"
      by (auto simp: np_convolve_same_def Let_def split: if_splits)
    have "length (np_convolve_full a [- 1, 1]) = length a + 1"
      by (simp add: np_convolve_full_def)
    with 3 d show ?thesis by (simp add: conv_full_nth)
  qed
  then show "length d = max (length a) 2"
    and "\<And>i. 1 \<le> i \<Longrightarrow> i < length a \<Longrightarrow> d ! i = a ! (i - 1) - a ! i"
    by blast+
qed


lemma beta_Inr: "beta Ek Erest = Inr b \<Longrightarrow> b = relativistic_beta Ek Erest"
  by (auto simp: beta_def relativistic_beta_def split: if_splits)

lemma sum_list_quotients:
  "sum_list (map (\<lambda>(x, y). x / y) (zip (map f js) (map g js))) = (\<Sum>i\<leftarrow>js. f i / g i)"
  by (induction js) simp_all

lemma bounce_sum_Inr:
  assumes "bounce_sum ds Bm dB Erest Ek = Inr t"
    and "length dB = n" and "length ds = max n 2"
  shows "t = 2 * (\<Sum>i = 1..<n - 1.
                   ds ! i / (c_light * relativistic_beta Ek Erest * sqrt (1 - \<bar>dB ! i / Bm\<bar>)))"
proof -
  let ?v = "\<lambda>Bi. c_light * relativistic_beta Ek Erest * sqrt (1 - \<bar>Bi / Bm\<bar>)"
  from assms(1) obtain q where
    q: "np_divide (py_slice_inner ds) (py_slice_inner (map ?v dB)) = Inr q"
    and t: "t = 2 * sum_list q"
    by (auto simp: bounce_sum_def vparalel_def bind_err_Inr_iff dest!: beta_Inr)
  have range: "[1..<length ds - 1] = [1..<n - 1]"
    using assms(3) by (cases "2 \<le> n") (simp_all add: max_def)
  have ds: "py_slice_inner ds = map (\<lambda>i. ds ! i) [1..<n - 1]"
    by (simp only: py_slice_inner_nth range)
  have v: "py_slice_inner (map ?v dB) = map (\<lambda>i. ?v (dB ! i)) [1..<n - 1]"
    using assms(2) by (auto simp: py_slice_inner_nth)
  from q have "q = map (\<lambda>(x, y). x / y)
                    (zip (map (\<lambda>i. ds ! i) [1..<n - 1]) (map (\<lambda>i. ?v (dB ! i)) [1..<n - 1]))"
    unfolding ds v by (simp add: np_divide_def)
  then have "sum_list q = (\<Sum>i\<leftarrow>[1..<n - 1]. ds ! i / ?v (dB ! i))"
    by (simp only: sum_list_quotients)
  also have "\<dots> = (\<Sum>i = 1..<n - 1. ds ! i / ?v (dB ! i))"
    by (simp add: interv_sum_list_conv_sum_set_nat)
  finally show ?thesis using t by simp
qed

lemma resample_and_integrate_scalar:
  assumes "resample_and_integrate fLine startInd endInd interpNum (EScalar Ek) Erest = Inr Tb"
  shows "\<exists>sLow sHigh. startInd = Some sLow \<and> endInd = Some sHigh
           \<and> Tb = TbScalar (bounce_integral fLine sLow sHigh interpNum Ek Erest)"
proof -
  let ?F = "\<lambda>(a, b, c). 6.371 * 10 ^ 6 * sqrt (a ^ 2 + b ^ 2 + c ^ 2 :: real)"
  from assms obtain sLow sHigh sInterp xs dx ys dy zs dz bs t where
    inds: "startInd = Some sLow" "endInd = Some sHigh"
    and lin: "np_linspace sLow sHigh interpNum = Inr sInterp"
    and xs: "interp_call fLine (fl_fx fLine) sInterp = Inr xs"
    and dx: "np_convolve_same xs [- 1, 1] = Inr dx"
    and ys: "interp_call fLine (fl_fy fLine) sInterp = Inr ys"
    and dy: "np_convolve_same ys [- 1, 1] = Inr dy"
    and zs: "interp_call fLine (fl_fz fLine) sInterp = Inr zs"
    and dz: "np_convolve_same zs [- 1, 1] = Inr dz"
    and bs: "interp_call fLine (fl_fB fLine) sInterp = Inr bs"
    and t: "bounce_sum (map ?F (zip dx (zip dy dz))) (fl_inputB fLine)
              (map (\<lambda>b. b + fl_inputB fLine) bs) Erest Ek = Inr t"
    and Tb: "Tb = TbScalar t"
    unfolding resample_and_integrate_def
    by (auto simp: bind_err_Inr_iff local_var_Inr Let_def)
  define n where "n = nat interpNum"
  let ?s = "resample_point sLow sHigh interpNum"
  have len: "length sInterp = n" and s: "\<And>i. i < n \<Longrightarrow> sInterp ! i = ?s i"
    using np_linspace_Inr [OF lin] by (simp_all add: n_def)
  have maps: "xs = map (fl_fx fLine) sInterp" "ys = map (fl_fy fLine) sInterp"
    "zs = map (fl_fz fLine) sInterp" "bs = map (fl_fB fLine) sInterp"
    using xs ys zs bs by (auto dest: interp_call_Inr)
  have lens: "length dx = max n 2" "length dy = max n 2" "length dz = max n 2"
    using np_convolve_same_diff(1) [OF dx] np_convolve_same_diff(1) [OF dy]
      np_convolve_same_diff(1) [OF dz] by (simp_all add: maps len)
  have diffs: "dx ! i = fl_fx fLine (?s (i - 1)) - fl_fx fLine (?s i)"
    "dy ! i = fl_fy fLine (?s (i - 1)) - fl_fy fLine (?s i)"
    "dz ! i = fl_fz fLine (?s (i - 1)) - fl_fz fLine (?s i)"
    if "1 \<le> i" "i < n" for i
    using np_convolve_same_diff(2) [OF dx, of i] np_convolve_same_diff(2) [OF dy, of i]
      np_convolve_same_diff(2) [OF dz, of i] that
    by (simp_all add: maps len s)
  have ds: "map ?F (zip dx (zip dy dz)) ! i = arc_increment fLine (?s (i - 1)) (?s i)"
    if "1 \<le> i" "i < n" for i
  proof -
    from that have "i < max n 2" by simp
    then have "map ?F (zip dx (zip dy dz)) ! i = ?F (dx ! i, dy ! i, dz ! i)"
      by (simp add: lens)
    also have "\<dots> = arc_increment fLine (?s (i - 1)) (?s i)"
      using that by (simp add: diffs arc_increment_def power2_commute)
    finally show ?thesis .
  qed
  have dB: "map (\<lambda>b. b + fl_inputB fLine) bs ! i = fl_fB fLine (?s i) + fl_inputB fLine"
    if "i < n" for i
    using that by (simp add: maps len s)
  let ?L = "\<lambda>i. map ?F (zip dx (zip dy dz)) ! i /
        (c_light * relativistic_beta Ek Erest *
           sqrt (1 - \<bar>map (\<lambda>b. b + fl_inputB fLine) bs ! i / fl_inputB fLine\<bar>))"
  let ?R = "\<lambda>i. arc_increment fLine (?s (i - 1)) (?s i) /
        parallel_velocity Ek (fl_inputB fLine) (fl_fB fLine (?s i) + fl_inputB fLine) Erest"
  have "t = 2 * sum ?L {1..<n - 1}"
    by (rule bounce_sum_Inr [OF t]) (simp_all add: maps len lens)
  also have "sum ?L {1..<n - 1} = sum ?R {1..<n - 1}"
  proof (rule sum.cong [OF refl])
    fix i assume "i \<in> {1..<n - 1}"
    then have i: "1 \<le> i" "i < n" by auto
    show "?L i = ?R i"
      unfolding parallel_velocity_def ds [OF i] dB [OF i(2)] ..
  qed
  also have "2 * sum ?R {1..<n - 1} = bounce_integral fLine sLow sHigh interpNum Ek Erest"
    by (simp only: bounce_integral_def n_def)
  finally show ?thesis using inds Tb by simp
qed

text \<open>
  Claim C1. For every call of \<^verbatim>\<open>bounce_period\<close> with a scalar kinetic energy that
  returns, the bounce period returned is twice the sum, over the interior points
  \<open>1, \<dots>, interpNum - 2\<close> of the \<open>interpNum\<close> uniformly spaced arc parameters
  between the two mirror brackets, of the arc-length increment (6.371e6 times the
  norm of the difference of the interpolated positions at the point and at its
  predecessor) divided by the parallel velocity at the point, computed from the
  energy, the mirror field \<^verbatim>\<open>inputB\<close> and the local field \<open>fB(s) + inputB\<close>.
\<close>

theorem bounce_period_scalar:
  assumes "bounce_period ext maginput (EScalar Ek) Erest R0 flag interpNum = (printed, Inr Tb)"
  shows "\<exists>fLine sLow sHigh.
           snd (interpolate_field_line ext maginput R0 flag) = Inr fLine
         \<and> bracket_try ext fLine below_ground_long = Inr (Some sLow, Some sHigh)
         \<and> Tb = TbScalar (bounce_integral fLine sLow sHigh interpNum Ek Erest)"
proof -
  from assms have r: "snd (bounce_period ext maginput (EScalar Ek) Erest R0 flag interpNum)
      = Inr Tb"
    by simp
  then obtain fLine where
    fl: "snd (interpolate_field_line ext maginput R0 flag) = Inr fLine"
    by (auto simp: bounce_period_def snd_bind_io split: sum.splits)
  from r fl obtain inds where inds: "bracket_try ext fLine below_ground_long = Inr inds"
    by (auto simp: bounce_period_def snd_bind_io split: sum.splits)
  from r fl inds have
    "resample_and_integrate fLine (fst inds) (snd inds) interpNum (EScalar Ek) Erest = Inr Tb"
    by (simp add: bounce_period_def snd_bind_io)
  from resample_and_integrate_scalar [OF this] obtain sLow sHigh where
    "fst inds = Some sLow" "snd inds = Some sHigh"
    "Tb = TbScalar (bounce_integral fLine sLow sHigh interpNum Ek Erest)"
    by blast
  with fl inds show ?thesis by (cases inds) auto
qed

lemma upt5: "[0..<5] = [0, 1, 2, 3, 4]"
  by (simp add: upt_rec numeral_eq_Suc)

text \<open>The model of \<^verbatim>\<open>np.convolve\<close> on the example of numpy's documentation, on a
  kernel of even length, and the model of the slice on short lists.\<close>

lemma upt3: "[0..<3] = [0, 1, 2]"
  by (simp add: upt_rec numeral_eq_Suc)

lemma upt6: "[0..<6] = [0, 1, 2, 3, 4, 5]"
  by (simp add: upt_rec numeral_eq_Suc)

lemma np_convolve_same_documented:
  "np_convolve_same [1, 2, 3] [0, 1, 1 / 2] = Inr [1, 5 / 2, 4]"
  by (simp add: np_convolve_same_def np_convolve_full_def upt3 upt5)

lemma np_convolve_same_moving_sum:
  "np_convolve_same [1, 2, 3, 4, 5] [1, 1] = Inr [1, 3, 5, 7, 9]"
  by (simp add: np_convolve_same_def np_convolve_full_def upt5 upt6)

lemma py_slice_to_examples:
  "py_slice_to [a, b, c] (- 1) = [a, b]" "py_slice_to [a, b, c] (- 9999) = []"
  "py_slice_to [a, b, c] 2 = [a, b]" "py_slice_to [a, b, c] 7 = [a, b, c]"
  by (simp_all add: py_slice_to_def)

lemma linspace_ex: "np_linspace 1 (5 / 2) 4 = Inr [1, 3 / 2, 2, 5 / 2]"
  by (simp add: np_linspace_def upt4)

lemma conv4:
  "np_convolve_same [a0, a1, a2, a3] [- 1, 1] = Inr [- a0, a0 - a1, a1 - a2, a2 - a3]"
  by (simp add: np_convolve_same_def np_convolve_full_def upt4 upt5)

lemma calls_ex:
  "interp_call fLine_example (fl_fx fLine_example) [1, 3 / 2, 2, 5 / 2] = Inr [0, 0, 0, 0]"
  "interp_call fLine_example (fl_fy fLine_example) [1, 3 / 2, 2, 5 / 2] = Inr [0, 0, 0, 0]"
  "interp_call fLine_example (fl_fz fLine_example) [1, 3 / 2, 2, 5 / 2] = Inr [1, 0, - 1, - 2]"
  "interp_call fLine_example (fl_fB fLine_example) [1, 3 / 2, 2, 5 / 2] = Inr [0, - 1, - 1, 0]"
  by (simp_all add: interp_call_def fLine_example_def f0_ex fz_ex fB_ex)

lemma sqrt_16_25: "sqrt (16 / 25) = 4 / 5"
  by (rule real_sqrt_unique) (simp_all add: power2_eq_square)

lemma sqrt_quarter: "sqrt (1 / 4) = 1 / 2"
  by (rule real_sqrt_unique) (simp_all add: power2_eq_square)

lemma beta_ex: "beta 2 3 = Inr (4 / 5)"
proof -
  have e: "1 - 1 / ((2::real) / 3 + 1) ^ 2 = 16 / 25"
    by (simp add: power2_eq_square)
  show ?thesis unfolding beta_def e by (simp add: sqrt_16_25)
qed

lemma vparalel_ex: "vparalel 2 4 [4, 3, 3, 4] 3 = Inr [0, 120000000, 120000000, 0]"
  by (simp add: vparalel_def beta_ex err_simps c_light_def sqrt_quarter)

lemma bounce_sum_ex:
  "bounce_sum [6371000, 6371000, 6371000, 6371000] 4 [4, 3, 3, 4] 3 2 = Inr (6371 / 30000)"
  by (simp add: bounce_sum_def vparalel_ex err_simps py_slice_inner_def np_divide_def)

lemma resample_ex:
  "resample_and_integrate fLine_example (Some 1) (Some (5 / 2)) 4 (EScalar 2) 3
     = Inr (TbScalar (6371 / 30000))"
proof -
  have B: "fl_inputB fLine_example = 4" by (simp add: fLine_example_def)
  show ?thesis
    by (simp add: resample_and_integrate_def local_var_def err_simps linspace_ex calls_ex
        conv4 B bounce_sum_ex)
qed

lemma bounce_period_ex:
  "bounce_period ext_example None (EScalar 2) 3 1 False 4 = ([], Inr (TbScalar (6371 / 30000)))"
  by (simp add: bounce_period_def io_simps interp_ex bracket_ex len_example resample_ex
      lift_io_def)

theorem bounce_period_scalar_witness:
  "bounce_period ext_example None (EScalar 2) 3 1 False 4 = ([], Inr (TbScalar (6371 / 30000)))
   \<and> (\<exists>fLine sLow sHigh.
         snd (interpolate_field_line ext_example None 1 False) = Inr fLine
       \<and> bracket_try ext_example fLine below_ground_long = Inr (Some sLow, Some sHigh)
       \<and> TbScalar (6371 / 30000) = TbScalar (bounce_integral fLine sLow sHigh 4 2 3))"
  using bounce_period_scalar [OF bounce_period_ex] bounce_period_ex by simp

end
